theory Spec2Isabelle
  imports Complex_Main
begin

section \<open>Scalars, vectors and matrices (module glimmer.vector, glimmer.matrix)\<close>

text \<open>
  The library is generic in an arithmetic scalar type \<open>T\<close>; the renderers are used with a
  floating type. The scalar is modelled by \<^typ>\<open>real\<close>: every operation is the exact one,
  there is no rounding, no infinity and no NaN. \<open>Vector<T,3>\<close> is a triple, \<open>Vector<T,4>\<close> a
  quadruple, \<open>Vector<T,2>\<close> a pair, and \<open>Matrix<T,R,C>\<close> is its element access
  \<open>operator()(r, c)\<close>.

  A quotient by zero is not a real number. The source guards its divisions by a test on the
  divisor, except in \<open>Sphere::intersect\<close>, where the divisor is zero for a ray of zero
  direction; there the quotient is kept as the floating type gives it (see \<open>fval\<close> below).
\<close>

type_synonym vec2 = "real \<times> real"
type_synonym vec3 = "real \<times> real \<times> real"
type_synonym vec4 = "real \<times> real \<times> real \<times> real"
type_synonym mat4 = "nat \<Rightarrow> nat \<Rightarrow> real"
type_synonym mat3 = "nat \<Rightarrow> nat \<Rightarrow> real"
type_synonym color3 = vec3

text \<open>\<open>v[i]\<close> for \<open>i < 3\<close>.\<close>

fun idx3 :: "vec3 \<Rightarrow> nat \<Rightarrow> real" where
  "idx3 (x, y, z) i = (if i = 0 then x else if i = 1 then y else z)"

fun vadd :: "vec3 \<Rightarrow> vec3 \<Rightarrow> vec3" where
  "vadd (a0, a1, a2) (b0, b1, b2) = (a0 + b0, a1 + b1, a2 + b2)"

fun vsub :: "vec3 \<Rightarrow> vec3 \<Rightarrow> vec3" where
  "vsub (a0, a1, a2) (b0, b1, b2) = (a0 - b0, a1 - b1, a2 - b2)"

fun vneg :: "vec3 \<Rightarrow> vec3" where
  "vneg (a0, a1, a2) = (- a0, - a1, - a2)"

fun vscale :: "vec3 \<Rightarrow> real \<Rightarrow> vec3" where
  "vscale (a0, a1, a2) s = (a0 * s, a1 * s, a2 * s)"

fun vdiv :: "vec3 \<Rightarrow> real \<Rightarrow> vec3" where
  "vdiv (a0, a1, a2) s = (a0 / s, a1 / s, a2 / s)"

fun dot :: "vec3 \<Rightarrow> vec3 \<Rightarrow> real" where
  "dot (a0, a1, a2) (b0, b1, b2) = 0 + a0 * b0 + a1 * b1 + a2 * b2"

fun cross :: "vec3 \<Rightarrow> vec3 \<Rightarrow> vec3" where
  "cross (a0, a1, a2) (b0, b1, b2) =
     (a1 * b2 - a2 * b1, a2 * b0 - a0 * b2, a0 * b1 - a1 * b0)"

text \<open>\<open>Vector::norm\<close> for a floating scalar: the square root of the sum of squares.\<close>

fun norm_v3 :: "vec3 \<Rightarrow> real" where
  "norm_v3 (a0, a1, a2) = sqrt (0 + a0 * a0 + a1 * a1 + a2 * a2)"

text \<open>\<open>Vector::normalized\<close>: the zero vector when the norm is zero.\<close>

definition normalized :: "vec3 \<Rightarrow> vec3" where
  "normalized v = (let n = norm_v3 v in if n = 0 then (0, 0, 0) else vdiv v n)"

fun to_homogeneous_point :: "vec3 \<Rightarrow> vec4" where
  "to_homogeneous_point (p0, p1, p2) = (p0, p1, p2, 1)"

fun to_homogeneous_dir :: "vec3 \<Rightarrow> vec4" where
  "to_homogeneous_dir (d0, d1, d2) = (d0, d1, d2, 0)"

text \<open>\<open>resize_dim<T,4,3>\<close>: the first three components.\<close>

fun resize_dim_4_3 :: "vec4 \<Rightarrow> vec3" where
  "resize_dim_4_3 (x0, x1, x2, x3) = (x0, x1, x2)"

text \<open>Matrix-vector product: \<open>acc\<close> starts at \<open>T{}\<close> and adds \<open>a(r,c) * x[c]\<close>.\<close>

fun mat4_mul_vec :: "mat4 \<Rightarrow> vec4 \<Rightarrow> vec4" where
  "mat4_mul_vec a (x0, x1, x2, x3) =
     (0 + a 0 0 * x0 + a 0 1 * x1 + a 0 2 * x2 + a 0 3 * x3,
      0 + a 1 0 * x0 + a 1 1 * x1 + a 1 2 * x2 + a 1 3 * x3,
      0 + a 2 0 * x0 + a 2 1 * x1 + a 2 2 * x2 + a 2 3 * x3,
      0 + a 3 0 * x0 + a 3 1 * x1 + a 3 2 * x2 + a 3 3 * x3)"

fun mat3_mul_vec :: "mat3 \<Rightarrow> vec3 \<Rightarrow> vec3" where
  "mat3_mul_vec a (x0, x1, x2) =
     (0 + a 0 0 * x0 + a 0 1 * x1 + a 0 2 * x2,
      0 + a 1 0 * x0 + a 1 1 * x1 + a 1 2 * x2,
      0 + a 2 0 * x0 + a 2 1 * x1 + a 2 2 * x2)"

definition identity4 :: mat4 where
  "identity4 = (\<lambda>r c. if r = c then 1 else 0)"

text \<open>\<open>std::clamp(v, lo, hi)\<close>.\<close>

definition clamp :: "real \<Rightarrow> real \<Rightarrow> real \<Rightarrow> real" where
  "clamp v lo hi = (if v < lo then lo else if hi < v then hi else v)"

section \<open>Ray (module glimmer.ray)\<close>

record ray =
  origin :: vec3
  direction :: vec3
  tmin :: real
  tmax :: real

definition Ray :: "vec3 \<Rightarrow> vec3 \<Rightarrow> real \<Rightarrow> real \<Rightarrow> ray" where
  "Ray o' d' tmin' tmax' = \<lparr>origin = o', direction = d', tmin = tmin', tmax = tmax'\<rparr>"

definition ray_at :: "ray \<Rightarrow> real \<Rightarrow> vec3" where
  "ray_at r t = vadd (origin r) (vscale (direction r) t)"

section \<open>Axis-aligned bounding box (module glimmer.aabb)\<close>

record aabb =
  aabb_min :: vec3
  aabb_max :: vec3

text \<open>
  The default constructor stores \<open>min = +inf\<close>, \<open>max = -inf\<close> on every axis. The reals have no
  infinity; the sentinel is represented by a box with \<open>min > max\<close>. Every operation modelled
  here tests \<open>empty()\<close> before it reads a corner, so the corners of the sentinel are never used.
\<close>

definition AABB_default :: aabb where
  "AABB_default = \<lparr>aabb_min = (1, 1, 1), aabb_max = (-1, -1, -1)\<rparr>"

definition AABB_empty :: "aabb \<Rightarrow> bool" where
  "AABB_empty b =
     (\<not> (idx3 (aabb_min b) 0 \<le> idx3 (aabb_max b) 0
         \<and> idx3 (aabb_min b) 1 \<le> idx3 (aabb_max b) 1
         \<and> idx3 (aabb_min b) 2 \<le> idx3 (aabb_max b) 2))"

text \<open>\<open>expand(const Vector<T,3>& p)\<close>.\<close>

definition AABB_expand :: "aabb \<Rightarrow> vec3 \<Rightarrow> aabb" where
  "AABB_expand b p =
     (if AABB_empty b then \<lparr>aabb_min = p, aabb_max = p\<rparr>
      else \<lparr>aabb_min =
               (if idx3 p 0 < idx3 (aabb_min b) 0 then idx3 p 0 else idx3 (aabb_min b) 0,
                if idx3 p 1 < idx3 (aabb_min b) 1 then idx3 p 1 else idx3 (aabb_min b) 1,
                if idx3 p 2 < idx3 (aabb_min b) 2 then idx3 p 2 else idx3 (aabb_min b) 2),
             aabb_max =
               (if idx3 p 0 > idx3 (aabb_max b) 0 then idx3 p 0 else idx3 (aabb_max b) 0,
                if idx3 p 1 > idx3 (aabb_max b) 1 then idx3 p 1 else idx3 (aabb_max b) 1,
                if idx3 p 2 > idx3 (aabb_max b) 2 then idx3 p 2 else idx3 (aabb_max b) 2)\<rparr>)"

text \<open>
  \<open>AABB::intersect\<close>: the loop over the three axes, carrying \<open>t0\<close> and \<open>t1\<close>. The list holds
  the axes still to be visited; \<open>None\<close> is \<open>std::nullopt\<close>, and \<open>Some (t_near, t_far)\<close> the
  returned \<open>RayHit\<close>.
\<close>

fun AABB_intersect_loop :: "aabb \<Rightarrow> ray \<Rightarrow> nat list \<Rightarrow> real \<Rightarrow> real \<Rightarrow> (real \<times> real) option" where
  "AABB_intersect_loop b r [] t0 t1 = Some (t0, t1)"
| "AABB_intersect_loop b r (i # rest) t0 t1 =
     (let di = idx3 (direction r) i;
          oi = idx3 (origin r) i
      in if di = 0 then
           (if oi < idx3 (aabb_min b) i \<or> oi > idx3 (aabb_max b) i then None
            else AABB_intersect_loop b r rest t0 t1)
         else
           (let invD = 1 / di;
                t_near = (idx3 (aabb_min b) i - oi) * invD;
                t_far = (idx3 (aabb_max b) i - oi) * invD;
                (t_near, t_far) = (if t_near > t_far then (t_far, t_near) else (t_near, t_far));
                t0 = (if t_near > t0 then t_near else t0);
                t1 = (if t_far < t1 then t_far else t1)
            in if t1 < t0 then None else AABB_intersect_loop b r rest t0 t1))"

definition AABB_intersect :: "aabb \<Rightarrow> ray \<Rightarrow> (real \<times> real) option" where
  "AABB_intersect b r =
     (if AABB_empty b then None else AABB_intersect_loop b r [0, 1, 2] (tmin r) (tmax r))"

section \<open>Geometry interface and primitives\<close>

text \<open>
  The hit record \<open>Geometry<T>::Hit\<close> as the scene object and the path tracer use it:
  \<open>t\<close>, \<open>normal\<close> and \<open>uv\<close>. A value-initialised hit (\<open>Hit hit{}\<close>) is all zeros.
\<close>

record hit =
  hit_t :: real
  hit_normal :: vec3
  hit_uv :: vec2

definition Hit_default :: hit where
  "Hit_default = \<lparr>hit_t = 0, hit_normal = (0, 0, 0), hit_uv = (0, 0)\<rparr>"

text \<open>
  \<open>Geometry<T>\<close> is an abstract class with two virtual member functions; an object of a
  derived class is the pair of its implementations. The values of this type are the
  geometries whose hits are made of numbers, as those of \<open>Plane\<close> are. A \<open>Sphere\<close> can
  return a hit whose \<open>t\<close> is NaN (below), so it is modelled on its own and not as a value of
  this type.
\<close>

record geometry =
  geo_aabb :: aabb
  geo_intersect :: "ray \<Rightarrow> hit option"

subsection \<open>Quotients that are not numbers\<close>

text \<open>
  The value of a floating division: a number, an infinity, or NaN for \<open>0/0\<close>. The only
  divisor it is used for is \<open>2 * dot(d, d)\<close>, a sum of squares, whose zero is \<open>+0\<close>, so an
  infinite quotient has the sign of the dividend. \<open>fless\<close> is \<open><\<close> of the floating type:
  every comparison with NaN is false.
\<close>

datatype fval = Num real | PInf | NInf | NaN

definition fdiv :: "real \<Rightarrow> real \<Rightarrow> fval" where
  "fdiv x y =
     (if y \<noteq> 0 then Num (x / y) else if x = 0 then NaN else if 0 < x then PInf else NInf)"

fun fless :: "fval \<Rightarrow> fval \<Rightarrow> bool" where
  "fless NaN y = False"
| "fless x NaN = False"
| "fless (Num x) (Num y) = (x < y)"
| "fless (Num x) PInf = True"
| "fless (Num x) NInf = False"
| "fless PInf y = False"
| "fless NInf NInf = False"
| "fless NInf y = True"

text \<open>
  \<open>in_interval r t\<close>: the value \<open>t\<close> lies in the interval \<open>[tmin, tmax]\<close> of the ray. NaN lies in
  no interval.
\<close>

definition in_interval :: "ray \<Rightarrow> fval \<Rightarrow> bool" where
  "in_interval r t =
     (case t of Num x \<Rightarrow> tmin r \<le> x \<and> x \<le> tmax r | PInf \<Rightarrow> False | NInf \<Rightarrow> False | NaN \<Rightarrow> False)"

subsection \<open>Sphere (module glimmer.sphere)\<close>

record sphere =
  sphere_c :: vec3
  sphere_r :: real

definition Sphere_aabb :: "sphere \<Rightarrow> aabb" where
  "Sphere_aabb s =
     (let e = (sphere_r s, sphere_r s, sphere_r s)
      in \<lparr>aabb_min = vsub (sphere_c s) e, aabb_max = vadd (sphere_c s) e\<rparr>)"

text \<open>
  What \<open>Sphere::intersect\<close> returns: \<open>std::nullopt\<close>, a hit made of numbers, or a hit whose
  \<open>t\<close> is the given value that is not a number; the point and the normal of such a hit are
  computed from that \<open>t\<close> and are not numbers either.
\<close>

datatype sphere_result = NoHit | Hit hit | HitNotNum fval

text \<open>The \<open>t\<close> of the returned hit, if one is returned.\<close>

fun result_t :: "sphere_result \<Rightarrow> fval option" where
  "result_t NoHit = None"
| "result_t (Hit h) = Some (Num (hit_t h))"
| "result_t (HitNotNum t) = Some t"

text \<open>The tail of \<open>Sphere::intersect\<close>, once \<open>t_candidate\<close> is chosen.\<close>

definition Sphere_hit_at :: "sphere \<Rightarrow> ray \<Rightarrow> real \<Rightarrow> hit" where
  "Sphere_hit_at s ray t_candidate =
     (let p = ray_at ray t_candidate;
          n = vsub p (sphere_c s);
          nn = norm_v3 n
      in Hit_default\<lparr>hit_t := t_candidate,
                      hit_normal := (if nn \<noteq> 0 then vdiv n nn else (0, 0, 1))\<rparr>)"

definition Sphere_hit :: "sphere \<Rightarrow> ray \<Rightarrow> fval \<Rightarrow> sphere_result" where
  "Sphere_hit s ray t_candidate =
     (case t_candidate of
        Num t \<Rightarrow> Hit (Sphere_hit_at s ray t)
      | PInf \<Rightarrow> HitNotNum PInf
      | NInf \<Rightarrow> HitNotNum NInf
      | NaN \<Rightarrow> HitNotNum NaN)"

text \<open>The two roots \<open>t0\<close>, \<open>t1\<close> as first computed, before they are ordered.\<close>

definition Sphere_roots :: "sphere \<Rightarrow> ray \<Rightarrow> fval \<times> fval" where
  "Sphere_roots s ray =
     (let oc = vsub (origin ray) (sphere_c s);
          a = dot (direction ray) (direction ray);
          b = 2 * dot oc (direction ray);
          c = dot oc oc - sphere_r s * sphere_r s;
          disc = b * b - 4 * a * c;
          sqrt_disc = sqrt disc
      in (fdiv (- b - sqrt_disc) (2 * a), fdiv (- b + sqrt_disc) (2 * a)))"

definition Sphere_intersect :: "sphere \<Rightarrow> ray \<Rightarrow> sphere_result" where
  "Sphere_intersect s ray =
     (let oc = vsub (origin ray) (sphere_c s);
          a = dot (direction ray) (direction ray);
          b = 2 * dot oc (direction ray);
          c = dot oc oc - sphere_r s * sphere_r s;
          disc = b * b - 4 * a * c
      in if disc < 0 then NoHit
         else
           (let sqrt_disc = sqrt disc;
                t0 = fdiv (- b - sqrt_disc) (2 * a);
                t1 = fdiv (- b + sqrt_disc) (2 * a);
                (t0, t1) = (if fless t1 t0 then (t1, t0) else (t0, t1));
                t_candidate = t0
            in if fless t_candidate (Num (tmin ray)) \<or> fless (Num (tmax ray)) t_candidate then
                 (let t_candidate = t1
                  in if fless t_candidate (Num (tmin ray)) \<or> fless (Num (tmax ray)) t_candidate
                     then NoHit
                     else Sphere_hit s ray t_candidate)
               else Sphere_hit s ray t_candidate))"

subsection \<open>Plane (module glimmer.plane)\<close>

record plane =
  plane_p0 :: vec3
  plane_n :: vec3

definition Plane_normalize :: "vec3 \<Rightarrow> vec3" where
  "Plane_normalize v = (let len = norm_v3 v in if len \<noteq> 0 then vdiv v len else (0, 0, 1))"

definition Plane :: "vec3 \<Rightarrow> vec3 \<Rightarrow> plane" where
  "Plane point normal = \<lparr>plane_p0 = point, plane_n = Plane_normalize normal\<rparr>"

definition Plane_big_extent :: real where
  "Plane_big_extent = 1000000"

definition Plane_aabb :: "plane \<Rightarrow> aabb" where
  "Plane_aabb pl =
     (let M = Plane_big_extent; e = (M, M, M)
      in \<lparr>aabb_min = vsub (plane_p0 pl) e, aabb_max = vadd (plane_p0 pl) e\<rparr>)"

definition Plane_intersect :: "plane \<Rightarrow> ray \<Rightarrow> hit option" where
  "Plane_intersect pl ray =
     (let denom = dot (plane_n pl) (direction ray);
          eps = 1 / 100000000
      in if denom > - eps \<and> denom < eps then None
         else
           (let t = dot (vsub (plane_p0 pl) (origin ray)) (plane_n pl) / denom
            in if t < tmin ray \<or> t > tmax ray then None
               else Some (Hit_default\<lparr>hit_t := t, hit_normal := plane_n pl\<rparr>)))"

definition Plane_geometry :: "plane \<Rightarrow> geometry" where
  "Plane_geometry pl = \<lparr>geo_aabb = Plane_aabb pl, geo_intersect = Plane_intersect pl\<rparr>"

subsection \<open>Triangle test (module glimmer.mesh)\<close>

record tri_hit =
  tri_t :: real
  tri_u :: real
  tri_v :: real
  tri_normal :: vec3

definition intersect_triangle :: "vec3 \<Rightarrow> vec3 \<Rightarrow> vec3 \<Rightarrow> ray \<Rightarrow> tri_hit option" where
  "intersect_triangle p0 p1 p2 ray =
     (let e1 = vsub p1 p0;
          e2 = vsub p2 p0;
          pvec = cross (direction ray) e2;
          det = dot e1 pvec;
          eps = 1 / 100000000
      in if \<not> (det > eps \<or> det < - eps) then None
         else
           (let inv_det = 1 / det;
                tvec = vsub (origin ray) p0;
                u = dot tvec pvec * inv_det
            in if u < 0 \<or> u > 1 then None
               else
                 (let qvec = cross tvec e1;
                      v = dot (direction ray) qvec * inv_det
                  in if v < 0 \<or> u + v > 1 then None
                     else
                       (let t = dot e2 qvec * inv_det
                        in if t < tmin ray \<or> t > tmax ray then None
                           else
                             (let n = cross e1 e2;
                                  nn = norm_v3 n;
                                  normal = (if nn \<noteq> 0 then vdiv n nn else (0, 0, 1))
                              in Some \<lparr>tri_t = t, tri_u = u, tri_v = v, tri_normal = normal\<rparr>)))))"

section \<open>Material (module glimmer.material)\<close>

text \<open>
  A material holds one \<open>MaterialProperty\<close> object per parameter; the only operation of a
  property is the virtual \<open>get(uv)\<close>, so a property is the function it computes.
\<close>

record material =
  albedo_prop :: "vec2 \<Rightarrow> color3"
  roughness_prop :: "vec2 \<Rightarrow> real"
  radiance_prop :: "vec2 \<Rightarrow> color3"
  transparency_prop :: "vec2 \<Rightarrow> real"
  emission_prop :: "vec2 \<Rightarrow> real"
  refractive_index_prop :: "vec2 \<Rightarrow> real"
  normal_relative_prop :: "vec2 \<Rightarrow> vec3"

definition clamp01 :: "real \<Rightarrow> real" where
  "clamp01 v = (if v < 0 then 0 else if v > 1 then 1 else v)"

definition clamp_nonneg :: "real \<Rightarrow> real" where
  "clamp_nonneg v = (if v < 0 then 0 else v)"

definition clamp_min_one :: "real \<Rightarrow> real" where
  "clamp_min_one v = (if v < 1 then 1 else v)"

definition Material_albedo :: "material \<Rightarrow> vec2 \<Rightarrow> color3" where
  "Material_albedo m uv = albedo_prop m uv"

definition Material_roughness :: "material \<Rightarrow> vec2 \<Rightarrow> real" where
  "Material_roughness m uv = clamp01 (roughness_prop m uv)"

definition Material_radiance :: "material \<Rightarrow> vec2 \<Rightarrow> color3" where
  "Material_radiance m uv = radiance_prop m uv"

definition Material_transparency :: "material \<Rightarrow> vec2 \<Rightarrow> real" where
  "Material_transparency m uv = clamp01 (transparency_prop m uv)"

definition Material_emission :: "material \<Rightarrow> vec2 \<Rightarrow> real" where
  "Material_emission m uv = clamp_nonneg (emission_prop m uv)"

definition Material_refractive_index :: "material \<Rightarrow> vec2 \<Rightarrow> real" where
  "Material_refractive_index m uv = clamp_min_one (refractive_index_prop m uv)"

text \<open>The default constructor and two of the factories (uniform properties).\<close>

definition Material_default :: material where
  "Material_default =
     \<lparr>albedo_prop = (\<lambda>uv. (0, 0, 0)), roughness_prop = (\<lambda>uv. 0),
      radiance_prop = (\<lambda>uv. (0, 0, 0)), transparency_prop = (\<lambda>uv. 0),
      emission_prop = (\<lambda>uv. 0), refractive_index_prop = (\<lambda>uv. 1),
      normal_relative_prop = (\<lambda>uv. (0, 0, 1))\<rparr>"

definition lambertian :: "color3 \<Rightarrow> material" where
  "lambertian albedo =
     Material_default\<lparr>albedo_prop := (\<lambda>uv. albedo), roughness_prop := (\<lambda>uv. 0),
       radiance_prop := (\<lambda>uv. (0, 0, 0)), transparency_prop := (\<lambda>uv. 0),
       emission_prop := (\<lambda>uv. 0), refractive_index_prop := (\<lambda>uv. 1)\<rparr>"

definition emissive :: "color3 \<Rightarrow> real \<Rightarrow> material" where
  "emissive radiance pw =
     Material_default\<lparr>albedo_prop := (\<lambda>uv. (0, 0, 0)), roughness_prop := (\<lambda>uv. 0),
       radiance_prop := (\<lambda>uv. radiance), transparency_prop := (\<lambda>uv. 0),
       emission_prop := (\<lambda>uv. clamp_nonneg pw), refractive_index_prop := (\<lambda>uv. 1)\<rparr>"

section \<open>Transform (module glimmer.transform)\<close>

record transform =
  xf_m :: mat4
  xf_inv :: mat4

definition Transform_default :: transform where
  "Transform_default = \<lparr>xf_m = identity4, xf_inv = identity4\<rparr>"

text \<open>\<open>Transform(const Mat4& m, const Mat4& inv)\<close> stores the two matrices as given.\<close>

definition Transform :: "mat4 \<Rightarrow> mat4 \<Rightarrow> transform" where
  "Transform m m_inv = \<lparr>xf_m = m, xf_inv = m_inv\<rparr>"

section \<open>Scene object (module glimmer.scene\_object)\<close>

text \<open>\<open>geom\<close> is the shared pointer to the geometry; \<open>None\<close> is the null pointer.\<close>

record scene_object =
  geom :: "geometry option"
  mat :: material
  xf :: transform
  m_world :: mat4
  inv_world :: mat4
  normal_it3 :: mat3
  aabb_world :: aabb

definition cache_from_transform :: "scene_object \<Rightarrow> scene_object" where
  "cache_from_transform ob =
     (let m_inv = xf_inv (xf ob)
      in ob\<lparr>m_world := xf_m (xf ob), inv_world := m_inv, normal_it3 := (\<lambda>r c. m_inv c r)\<rparr>)"

definition update_aabb :: "scene_object \<Rightarrow> scene_object" where
  "update_aabb ob =
     (case geom ob of
        None \<Rightarrow> ob\<lparr>aabb_world := AABB_default\<rparr>
      | Some g \<Rightarrow>
          (let box = geo_aabb g
           in if AABB_empty box then ob\<lparr>aabb_world := AABB_default\<rparr>
              else
                (let mn = aabb_min box; mx = aabb_max box;
                     corners =
                       [(idx3 mn 0, idx3 mn 1, idx3 mn 2), (idx3 mx 0, idx3 mn 1, idx3 mn 2),
                        (idx3 mn 0, idx3 mx 1, idx3 mn 2), (idx3 mn 0, idx3 mn 1, idx3 mx 2),
                        (idx3 mx 0, idx3 mx 1, idx3 mn 2), (idx3 mx 0, idx3 mn 1, idx3 mx 2),
                        (idx3 mn 0, idx3 mx 1, idx3 mx 2), (idx3 mx 0, idx3 mx 1, idx3 mx 2)];
                     world_box =
                       foldl (\<lambda>wb c. AABB_expand wb
                                (resize_dim_4_3 (mat4_mul_vec (m_world ob) (to_homogeneous_point c))))
                         AABB_default corners
                 in ob\<lparr>aabb_world := world_box\<rparr>)))"

text \<open>The constructor from geometry, material and transform.\<close>

definition SceneObject :: "geometry option \<Rightarrow> material \<Rightarrow> transform \<Rightarrow> scene_object" where
  "SceneObject g m x =
     update_aabb (cache_from_transform
       \<lparr>geom = g, mat = m, xf = x, m_world = (\<lambda>r c. 0), inv_world = (\<lambda>r c. 0),
        normal_it3 = (\<lambda>r c. 0), aabb_world = AABB_default\<rparr>)"

definition aabb_hits :: "scene_object \<Rightarrow> ray \<Rightarrow> bool" where
  "aabb_hits ob ray_w = (AABB_intersect (aabb_world ob) ray_w \<noteq> None)"

definition to_object_ray :: "scene_object \<Rightarrow> ray \<Rightarrow> ray" where
  "to_object_ray ob ray_w =
     (let o' = resize_dim_4_3 (mat4_mul_vec (inv_world ob) (to_homogeneous_point (origin ray_w)));
          d_obj = resize_dim_4_3 (mat4_mul_vec (inv_world ob) (to_homogeneous_dir (direction ray_w)));
          len = norm_v3 d_obj
      in if len \<noteq> 0 then
           (let d_unit = vdiv d_obj len;
                tmin' = tmin ray_w * len;
                tmax' = tmax ray_w * len
            in Ray o' d_unit tmin' tmax')
         else Ray o' d_obj (tmin ray_w) (tmax ray_w))"

definition compute_world_t :: "ray \<Rightarrow> vec3 \<Rightarrow> real" where
  "compute_world_t ray_w p_world =
     (let w = vsub p_world (origin ray_w);
          denom = dot (direction ray_w) (direction ray_w)
      in if denom \<noteq> 0 then dot w (direction ray_w) / denom else tmax ray_w)"

definition map_hit_to_world :: "scene_object \<Rightarrow> ray \<Rightarrow> ray \<Rightarrow> hit \<Rightarrow> hit" where
  "map_hit_to_world ob ray_w ray_o local_hit =
     (let t_obj = hit_t local_hit;
          p_obj = ray_at ray_o t_obj;
          p_world = resize_dim_4_3 (mat4_mul_vec (m_world ob) (to_homogeneous_point p_obj));
          n_world = mat3_mul_vec (normal_it3 ob) (hit_normal local_hit);
          t_world = compute_world_t ray_w p_world
      in Hit_default\<lparr>hit_t := t_world, hit_normal := n_world, hit_uv := hit_uv local_hit\<rparr>)"

definition SceneObject_intersect :: "scene_object \<Rightarrow> ray \<Rightarrow> hit option" where
  "SceneObject_intersect ob ray_w =
     (case geom ob of
        None \<Rightarrow> None
      | Some g \<Rightarrow>
          if \<not> aabb_hits ob ray_w then None
          else
            (let ray_o = to_object_ray ob ray_w
             in case geo_intersect g ray_o of
                  None \<Rightarrow> None
                | Some local_hit \<Rightarrow>
                    (let wh = map_hit_to_world ob ray_w ray_o local_hit
                     in if hit_t wh < tmin ray_w \<or> hit_t wh > tmax ray_w then None
                        else Some wh)))"

section \<open>Camera (module glimmer.camera)\<close>

record camera =
  c2w :: transform
  fov_y :: real
  aspect :: real
  z_near :: real
  z_far :: real

text \<open>The constructor throws \<open>std::invalid_argument\<close> with a message, or yields the camera.\<close>

datatype error = invalid_argument string

definition Camera :: "transform \<Rightarrow> real \<Rightarrow> real \<Rightarrow> real \<Rightarrow> real \<Rightarrow> error + camera" where
  "Camera cam_to_world fov_y_radians aspect' z_near' z_far' =
     (let this = \<lparr>c2w = cam_to_world, fov_y = fov_y_radians, aspect = aspect',
                   z_near = z_near', z_far = z_far'\<rparr>
      in if \<not> (aspect this > 0) then Inl (invalid_argument ''Camera: aspect must be > 0'')
         else if \<not> (z_near this > 0) \<or> \<not> (z_far this > z_near this)
              then Inl (invalid_argument ''Camera: invalid near/far'')
         else Inr this)"

section \<open>Scene (module glimmer.scene)\<close>

record scene =
  objects :: "scene_object list"
  background :: color3
  cam :: camera

section \<open>Path tracer helpers (namespace detail\_pt)\<close>

definition reflect :: "vec3 \<Rightarrow> vec3 \<Rightarrow> vec3" where
  "reflect v n = vsub v (vscale n (2 * dot v n))"

text \<open>\<open>refract\<close> returns whether refraction is possible and, if so, writes \<open>out\<close>.\<close>

definition refract :: "vec3 \<Rightarrow> vec3 \<Rightarrow> real \<Rightarrow> vec3 option" where
  "refract v n eta =
     (let cosi = clamp (- dot v n) (- 1) 1;
          k = 1 - eta * eta * (1 - cosi * cosi)
      in if k < 0 then None
         else Some (vadd (vscale v eta) (vscale n (eta * cosi - sqrt k))))"

definition schlick :: "real \<Rightarrow> real \<Rightarrow> real \<Rightarrow> real" where
  "schlick cos_theta eta_i eta_t =
     (let r0 = (eta_i - eta_t) / (eta_i + eta_t);
          r0 = r0 * r0
      in r0 + (1 - r0) * (1 - cos_theta) ^ 5)"

definition cosine_sample_hemisphere :: "real \<Rightarrow> real \<Rightarrow> vec3" where
  "cosine_sample_hemisphere u1 u2 =
     (let r = sqrt u1;
          theta = 2 * pi * u2;
          x = r * cos theta;
          y = r * sin theta;
          z = sqrt (max 0 (1 - u1))
      in (x, y, z))"

text \<open>\<open>build_ortho_basis\<close> returns the pair \<open>(t, b)\<close> it writes.\<close>

definition build_ortho_basis :: "vec3 \<Rightarrow> vec3 \<times> vec3" where
  "build_ortho_basis n =
     (let t = (if \<bar>idx3 n 2\<bar> < 0.999 then normalized (cross (0, 0, 1) n)
               else normalized (cross (1, 0, 0) n))
      in (t, cross n t))"

definition to_world :: "vec3 \<Rightarrow> vec3 \<Rightarrow> vec3" where
  "to_world local n =
     (let (t, b) = build_ortho_basis n
      in vadd (vadd (vscale t (idx3 local 0)) (vscale b (idx3 local 1))) (vscale n (idx3 local 2)))"

fun hadamard :: "color3 \<Rightarrow> color3 \<Rightarrow> color3" where
  "hadamard (a0, a1, a2) (b0, b1, b2) = (a0 * b0, a1 * b1, a2 * b2)"

section \<open>Path tracer (class RendererPathTracer)\<close>

text \<open>
  The random generator \<open>std::mt19937_64\<close> read through \<open>uniform_real_distribution(0, 1)\<close>
  belongs to the standard library. It is taken as the sequence of the numbers it will
  deliver; a draw returns the first and leaves the rest.
\<close>

type_synonym rng = "nat \<Rightarrow> real"

definition uni :: "rng \<Rightarrow> real \<times> rng" where
  "uni g = (g 0, (\<lambda>k. g (Suc k)))"

text \<open>The variables of the nearest-hit scan at the head of the loop body.\<close>

record scan =
  best_t :: real
  best_n :: vec3
  best_p :: vec3
  best_uv :: vec2
  best_m :: "material option"
  any_hit :: bool

definition scan_init :: "ray \<Rightarrow> scan" where
  "scan_init ray =
     \<lparr>best_t = tmax ray, best_n = (0, 0, 0), best_p = (0, 0, 0), best_uv = (0, 0),
      best_m = None, any_hit = False\<rparr>"

text \<open>One iteration of \<open>for (const auto& obj : scene.objects())\<close>.\<close>

definition scan_object :: "ray \<Rightarrow> scan \<Rightarrow> scene_object \<Rightarrow> scan" where
  "scan_object ray st obj =
     (if AABB_intersect (aabb_world obj) ray = None then st
      else
        (case SceneObject_intersect obj ray of
           None \<Rightarrow> st
         | Some h \<Rightarrow>
             if hit_t h \<ge> tmin ray \<and> hit_t h \<le> best_t st then
               \<lparr>best_t = hit_t h, best_n = normalized (hit_normal h),
                best_p = ray_at ray (hit_t h), best_uv = hit_uv h,
                best_m = Some (mat obj), any_hit = True\<rparr>
             else st))"

definition nearest_scan :: "ray \<Rightarrow> scene_object list \<Rightarrow> scan" where
  "nearest_scan ray objs = foldl (scan_object ray) (scan_init ray) objs"

text \<open>The Russian roulette block: \<open>None\<close> is the \<open>break\<close>, otherwise the new \<open>beta\<close>.\<close>

definition russian_roulette :: "nat \<Rightarrow> color3 \<Rightarrow> rng \<Rightarrow> color3 option \<times> rng" where
  "russian_roulette depth beta g =
     (if depth \<ge> 3 then
        (let max_c = max (max (idx3 beta 0) (idx3 beta 1)) (idx3 beta 2);
             max_c = clamp max_c 0 1;
             q = 1 - max_c;
             (u, g) = uni g
         in if u < q then (None, g) else (Some (vdiv beta (1 - q)), g))
      else (Some beta, g))"

definition spawn_ray :: "vec3 \<Rightarrow> vec3 \<Rightarrow> ray \<Rightarrow> ray" where
  "spawn_ray p dir ray = Ray (vadd p (vscale dir (1 / 10000))) dir (tmin ray) (tmax ray)"

text \<open>
  The rest of the loop body: the next ray and the new throughput. The two arguments of
  \<open>cosine_sample_hemisphere\<close> are drawn in the order they are written.
\<close>

definition sample_bsdf ::
  "ray \<Rightarrow> scan \<Rightarrow> color3 \<Rightarrow> real \<Rightarrow> real \<Rightarrow> real \<Rightarrow> color3 \<Rightarrow> rng \<Rightarrow> ray \<times> color3 \<times> rng" where
  "sample_bsdf ray st albedo roughness transparency ior beta g =
     (let n = best_n st;
          wo = vneg (direction ray);
          entering = (dot (direction ray) n < 0);
          nl = (if entering then n else vneg n)
      in if transparency > 0 then
           (let eta_i = (if entering then 1 else ior);
                eta_t = (if entering then ior else 1);
                eta = eta_i / eta_t;
                cos_theta_i = clamp (- dot (direction ray) nl) 0 1;
                R = schlick cos_theta_i eta_i eta_t
            in case refract (direction ray) nl eta of
                 None \<Rightarrow>
                   (let refl = normalized (reflect (direction ray) nl)
                    in (spawn_ray (best_p st) refl ray, hadamard beta albedo, g))
               | Some refr_dir \<Rightarrow>
                   (let (xi, g) = uni g
                    in if xi < R then
                         (let refl = normalized (reflect (direction ray) nl)
                          in (spawn_ray (best_p st) refl ray,
                              vdiv (hadamard beta albedo) (max R (1 / 1000)), g))
                       else
                         (let refr_dir = normalized refr_dir;
                              prob = max (1 - R) (1 / 1000)
                          in (spawn_ray (best_p st) refr_dir ray,
                              vdiv (vscale (hadamard beta albedo) transparency) prob, g))))
         else
           (let prob_spec = clamp (1 - roughness) 0 1;
                (u, g) = uni g
            in if u < prob_spec then
                 (let refl = normalized (reflect (vneg wo) n)
                  in (spawn_ray (best_p st) refl ray,
                      vdiv (hadamard beta albedo) (max prob_spec (1 / 1000)), g))
               else
                 (let (u1, g) = uni g;
                      (u2, g) = uni g;
                      local = cosine_sample_hemisphere u1 u2;
                      dir = normalized (to_world local n)
                  in (spawn_ray (best_p st) dir ray,
                      vdiv (hadamard beta albedo) (max (1 - prob_spec) (1 / 1000)), g))))"

text \<open>
  One iteration of the loop of \<open>path_trace_\<close>: either the loop is left with the radiance
  \<open>L\<close>, or the next iteration starts from a new ray, \<open>L\<close> and \<open>beta\<close>.
\<close>

datatype step = Break color3 rng | Continue ray color3 color3 rng

definition path_trace_body :: "scene \<Rightarrow> nat \<Rightarrow> ray \<Rightarrow> color3 \<Rightarrow> color3 \<Rightarrow> rng \<Rightarrow> step" where
  "path_trace_body sc depth ray L beta g =
     (let st = nearest_scan ray (objects sc)
      in if \<not> any_hit st then Break (vadd L (hadamard beta (background sc))) g
         else
           (let L = (case best_m st of
                       Some m \<Rightarrow>
                         vadd L (hadamard beta
                           (vscale (Material_radiance m (best_uv st)) (Material_emission m (best_uv st))))
                     | None \<Rightarrow> L);
                albedo = (case best_m st of Some m \<Rightarrow> Material_albedo m (best_uv st) | None \<Rightarrow> (0, 0, 0));
                roughness = (case best_m st of Some m \<Rightarrow> Material_roughness m (best_uv st) | None \<Rightarrow> 0);
                transparency = (case best_m st of Some m \<Rightarrow> Material_transparency m (best_uv st) | None \<Rightarrow> 0);
                ior = (case best_m st of Some m \<Rightarrow> Material_refractive_index m (best_uv st) | None \<Rightarrow> 1)
            in case russian_roulette depth beta g of
                 (None, g) \<Rightarrow> Break L g
               | (Some beta, g) \<Rightarrow>
                   (let (ray, beta, g) = sample_bsdf ray st albedo roughness transparency ior beta g
                    in Continue ray L beta g)))"

text \<open>\<open>for (depth = 0; depth < max_depth_; ++depth)\<close>, then \<open>return L\<close>.\<close>

function path_trace_loop ::
  "scene \<Rightarrow> nat \<Rightarrow> nat \<Rightarrow> ray \<Rightarrow> color3 \<Rightarrow> color3 \<Rightarrow> rng \<Rightarrow> color3 \<times> rng" where
  "path_trace_loop sc max_depth depth ray L beta g =
     (if depth < max_depth then
        (case path_trace_body sc depth ray L beta g of
           Break L' g' \<Rightarrow> (L', g')
         | Continue ray' L' beta' g' \<Rightarrow> path_trace_loop sc max_depth (Suc depth) ray' L' beta' g')
      else (L, g))"
  by pat_completeness auto
termination
  by (relation "measure (\<lambda>(sc, max_depth, depth, ray, L, beta, g). max_depth - depth)") auto

definition path_trace :: "scene \<Rightarrow> nat \<Rightarrow> ray \<Rightarrow> rng \<Rightarrow> color3 \<times> rng" where
  "path_trace sc max_depth ray g = path_trace_loop sc max_depth 0 ray (0, 0, 0) (1, 1, 1) g"

section \<open>Row partition of render\<close>

text \<open>
  The loop of \<open>render\<close> that starts the worker threads: it yields, in order, the row range
  \<open>(y0, y1)\<close> handed to each worker (the seed passed along is left out). The counters are
  \<open>std::size_t\<close>; they are modelled by natural numbers, and no value computed exceeds
  \<open>height\<close>.
\<close>

function split_rows :: "nat \<Rightarrow> nat \<Rightarrow> nat \<Rightarrow> nat \<Rightarrow> nat \<Rightarrow> (nat \<times> nat) list" where
  "split_rows rows_per_thread remainder thread_count t y0 =
     (if t < thread_count then
        (let count = rows_per_thread + (if t < remainder then 1 else 0);
             y1 = y0 + count
         in (y0, y1) # split_rows rows_per_thread remainder thread_count (Suc t) y1)
      else [])"
  by pat_completeness auto
termination
  by (relation "measure (\<lambda>(rpt, rm, thread_count, t, y0). thread_count - t)") auto

text \<open>
  \<open>hardware_concurrency\<close> is the value the standard library reports (zero when unknown).
\<close>

definition render_ranges :: "nat \<Rightarrow> nat \<Rightarrow> nat \<Rightarrow> (nat \<times> nat) list" where
  "render_ranges hardware_concurrency width height =
     (if width = 0 \<or> height = 0 then []
      else
        (let hw = (if hardware_concurrency \<noteq> 0 then hardware_concurrency else 4);
             thread_count = min hw height;
             rows_per_thread = height div thread_count;
             remainder = height mod thread_count
         in split_rows rows_per_thread remainder thread_count 0 0))"

text \<open>
  The first row of worker \<open>t\<close> in closed form: \<open>t\<close> blocks of \<open>rows_per_thread\<close> rows and one
  extra row for each earlier worker below \<open>remainder\<close>.
\<close>

definition row_start :: "nat \<Rightarrow> nat \<Rightarrow> nat \<Rightarrow> nat" where
  "row_start rpt rm t = t * rpt + min t rm"

section \<open>The slab method as the specification words it\<close>

text \<open>
  For comparison with \<open>AABB_intersect\<close>: an axis of zero direction rejects the ray when the
  origin is outside its slab and otherwise imposes nothing; every other axis contributes its
  two ordered crossings, which are intersected with the running interval; an empty final
  interval is no hit.
\<close>

definition slab_near :: "aabb \<Rightarrow> ray \<Rightarrow> nat \<Rightarrow> real" where
  "slab_near b r i =
     min ((idx3 (aabb_min b) i - idx3 (origin r) i) / idx3 (direction r) i)
         ((idx3 (aabb_max b) i - idx3 (origin r) i) / idx3 (direction r) i)"

definition slab_far :: "aabb \<Rightarrow> ray \<Rightarrow> nat \<Rightarrow> real" where
  "slab_far b r i =
     max ((idx3 (aabb_min b) i - idx3 (origin r) i) / idx3 (direction r) i)
         ((idx3 (aabb_max b) i - idx3 (origin r) i) / idx3 (direction r) i)"

definition outside_slab :: "aabb \<Rightarrow> ray \<Rightarrow> nat \<Rightarrow> bool" where
  "outside_slab b r i =
     (idx3 (origin r) i < idx3 (aabb_min b) i \<or> idx3 (origin r) i > idx3 (aabb_max b) i)"

definition slab_spec_on :: "aabb \<Rightarrow> ray \<Rightarrow> nat list \<Rightarrow> real \<Rightarrow> real \<Rightarrow> (real \<times> real) option" where
  "slab_spec_on b r axes t0 t1 =
     (let par = filter (\<lambda>i. idx3 (direction r) i = 0) axes;
          nonpar = filter (\<lambda>i. idx3 (direction r) i \<noteq> 0) axes
      in if list_ex (outside_slab b r) par then None
         else
           (let t_near = foldl (\<lambda>t i. max t (slab_near b r i)) t0 nonpar;
                t_far = foldl (\<lambda>t i. min t (slab_far b r i)) t1 nonpar
            in if t_far < t_near then None else Some (t_near, t_far)))"

definition slab_spec :: "aabb \<Rightarrow> ray \<Rightarrow> (real \<times> real) option" where
  "slab_spec b r = slab_spec_on b r [0, 1, 2] (tmin r) (tmax r)"

section \<open>Theorems\<close>

lemma r0_bounds:
  fixes a b :: real
  assumes "0 < a" "0 < b"
  shows "0 \<le> ((a - b) / (a + b)) * ((a - b) / (a + b))"
    and "((a - b) / (a + b)) * ((a - b) / (a + b)) \<le> 1"
proof -
  let ?q = "(a - b) / (a + b)"
  show "0 \<le> ?q * ?q" by simp
  have "\<bar>a - b\<bar> \<le> a + b" using assms by simp
  then have "\<bar>?q\<bar> \<le> 1" using assms by (simp add: field_simps)
  then have "\<bar>?q\<bar> * \<bar>?q\<bar> \<le> 1 * 1"
    by (intro mult_mono) simp_all
  then show "?q * ?q \<le> 1" by (simp add: abs_mult_self_eq)
qed

text \<open>
  C6. For every \<open>cos_theta\<close> in \<open>[0,1]\<close> and strictly positive \<open>eta_i\<close>, \<open>eta_t\<close>, the value of
  \<open>schlick\<close> is \<open>r0 + (1 - r0) * (1 - cos_theta)^5\<close> with
  \<open>r0 = ((eta_i - eta_t)/(eta_i + eta_t))^2\<close>, and it lies in \<open>[0,1]\<close>.
\<close>

theorem schlick_bounds:
  assumes "0 \<le> cos_theta" "cos_theta \<le> 1" "0 < eta_i" "0 < eta_t"
  shows "schlick cos_theta eta_i eta_t =
           ((eta_i - eta_t) / (eta_i + eta_t))\<^sup>2
           + (1 - ((eta_i - eta_t) / (eta_i + eta_t))\<^sup>2) * (1 - cos_theta) ^ 5
         \<and> 0 \<le> schlick cos_theta eta_i eta_t \<and> schlick cos_theta eta_i eta_t \<le> 1"
proof -
  define r0 where "r0 = ((eta_i - eta_t) / (eta_i + eta_t)) * ((eta_i - eta_t) / (eta_i + eta_t))"
  define x where "x = (1 - cos_theta) ^ 5"
  have r0: "0 \<le> r0" "r0 \<le> 1"
    unfolding r0_def using r0_bounds[OF assms(3,4)] by simp_all
  have x: "0 \<le> x" "x \<le> 1"
    unfolding x_def using assms(1,2) by (simp_all add: power_le_one)
  have eq: "schlick cos_theta eta_i eta_t = r0 + (1 - r0) * x"
    by (simp add: schlick_def Let_def r0_def x_def)
  have lo: "0 \<le> r0 + (1 - r0) * x" using r0 x by simp
  have "(1 - r0) * x \<le> (1 - r0) * 1"
    using r0 x by (intro mult_left_mono) simp_all
  then have hi: "r0 + (1 - r0) * x \<le> 1" by simp
  show ?thesis
    using eq lo hi by (simp add: r0_def x_def power2_eq_square)
qed

theorem schlick_bounds_witness:
  "schlick (1/2) 1 (3/2) = 7/100 \<and> 0 \<le> schlick (1/2) 1 (3/2) \<and> schlick (1/2) 1 (3/2) \<le> 1"
  using schlick_bounds[of "1/2" 1 "3/2"] by (simp add: power2_eq_square power_divide)

lemma dot_commute: "dot u v = dot v u"
  by (cases u, cases v) simp

lemma dot_vadd_left: "dot (vadd u v) w = dot u w + dot v w"
  by (cases u, cases v, cases w) (simp add: algebra_simps)

lemma dot_vscale_left: "dot (vscale u s) w = s * dot u w"
  by (cases u, cases w) (simp add: algebra_simps)

lemma dot_vadd_right: "dot w (vadd u v) = dot w u + dot w v"
  by (simp add: dot_commute[of w] dot_vadd_left)

lemma dot_vscale_right: "dot w (vscale u s) = s * dot w u"
  by (simp add: dot_commute[of w] dot_vscale_left)

lemma dot_vdiv_left: "dot (vdiv u s) w = dot u w / s"
  by (cases u, cases w) (simp add: add_divide_distrib)

lemma norm_v3_dot: "norm_v3 v = sqrt (dot v v)"
  by (cases v) simp

lemma dot_self_nonneg: "0 \<le> dot v v"
  by (cases v) simp

lemma cross_orth_left: "dot (cross u v) u = 0"
  by (cases u, cases v) (simp add: algebra_simps)

lemma cross_orth_right: "dot (cross u v) v = 0"
  by (cases u, cases v) (simp add: algebra_simps)

lemma lagrange: "dot (cross u v) (cross u v) = dot u u * dot v v - dot u v * dot u v"
  by (cases u, cases v) (simp add: algebra_simps)

lemma normalized_unit:
  assumes "0 < dot v v"
  shows "dot (normalized v) (normalized v) = 1" and "dot (normalized v) w = dot v w / norm_v3 v"
proof -
  have n: "norm_v3 v \<noteq> 0" using assms by (simp add: norm_v3_dot)
  have nz: "normalized v = vdiv v (norm_v3 v)" using n by (simp add: normalized_def Let_def)
  show "dot (normalized v) w = dot v w / norm_v3 v" by (simp add: nz dot_vdiv_left)
  have "dot (normalized v) (normalized v) = dot v v / norm_v3 v / norm_v3 v"
    by (simp add: nz dot_vdiv_left dot_commute[of v "vdiv v (norm_v3 v)"])
  also have "\<dots> = dot v v / (sqrt (dot v v) * sqrt (dot v v))" by (simp add: norm_v3_dot)
  also have "\<dots> = 1" using assms by simp
  finally show "dot (normalized v) (normalized v) = 1" .
qed

lemma basis_from_unit:
  assumes t: "dot t t = 1" "dot t n = 0" and n: "dot n n = 1"
  shows "dot (cross n t) (cross n t) = 1" "dot (cross n t) n = 0" "dot t (cross n t) = 0"
proof -
  show "dot (cross n t) (cross n t) = 1"
    using t n by (simp add: lagrange dot_commute[of n t])
  show "dot (cross n t) n = 0" by (rule cross_orth_left)
  show "dot t (cross n t) = 0" using cross_orth_right[of n t] by (simp add: dot_commute)
qed

lemma build_ortho_basis_orthonormal:
  assumes n: "dot n n = 1"
  shows "dot (fst (build_ortho_basis n)) (fst (build_ortho_basis n)) = 1
       \<and> dot (fst (build_ortho_basis n)) n = 0
       \<and> snd (build_ortho_basis n) = cross n (fst (build_ortho_basis n))"
proof -
  obtain a b c where nv: "n = (a, b, c)" by (cases n) auto
  have sum: "a * a + b * b + c * c = 1" using n by (simp add: nv)
  show ?thesis
  proof (cases "\<bar>c\<bar> < 0.999")
    case True
    let ?w = "cross (0, 0, 1) n"
    have w: "?w = (- b, a, 0)" by (simp add: nv)
    have "c * c < 1"
    proof -
      have "\<bar>c\<bar> * \<bar>c\<bar> < 1 * 1" using True by (intro mult_strict_mono') simp_all
      then show ?thesis by (simp add: abs_mult_self_eq)
    qed
    then have pos: "0 < dot ?w ?w" using sum by (simp add: w)
    have orth: "dot ?w n = 0" by (simp add: w nv)
    have bb: "build_ortho_basis n = (normalized ?w, cross n (normalized ?w))"
      using True unfolding build_ortho_basis_def Let_def by (simp add: nv)
    show ?thesis
      unfolding bb fst_conv snd_conv using normalized_unit(2)[OF pos, of n] normalized_unit(1)[OF pos] orth
      by simp
  next
    case False
    let ?w = "cross (1, 0, 0) n"
    have w: "?w = (0, - c, b)" by (simp add: nv)
    have "c \<noteq> 0" using False by auto
    then have "0 < c * c" by (auto simp add: zero_less_mult_iff)
    moreover have "0 \<le> b * b" by simp
    ultimately have pos: "0 < dot ?w ?w" by (simp add: w add_pos_nonneg)
    have orth: "dot ?w n = 0" by (simp add: w nv)
    have bb: "build_ortho_basis n = (normalized ?w, cross n (normalized ?w))"
      using False unfolding build_ortho_basis_def Let_def by (simp add: nv)
    show ?thesis
      unfolding bb fst_conv snd_conv using normalized_unit(2)[OF pos, of n] normalized_unit(1)[OF pos] orth
      by simp
  qed
qed

lemma to_world_dot:
  assumes n: "dot n n = 1"
  shows "dot (to_world l n) (to_world l n) = dot l l" and "dot (to_world l n) n = idx3 l 2"
proof -
  define t where "t = fst (build_ortho_basis n)"
  define b where "b = cross n t"
  have bb: "build_ortho_basis n = (t, b)"
    using build_ortho_basis_orthonormal[OF n] by (simp add: t_def b_def prod_eq_iff)
  have tt: "dot t t = 1" and tn: "dot t n = 0"
    using build_ortho_basis_orthonormal[OF n] by (simp_all add: t_def)
  have b1: "dot b b = 1" and bn: "dot b n = 0" and tb: "dot t b = 0"
    unfolding b_def using basis_from_unit[OF tt tn n] by simp_all
  have nt: "dot n t = 0" and nb: "dot n b = 0" and bt: "dot b t = 0"
    using tn bn tb by (simp_all add: dot_commute)
  obtain x y z where l: "l = (x, y, z)" by (cases l) auto
  have tw: "to_world l n = vadd (vadd (vscale t x) (vscale b y)) (vscale n z)"
    by (simp add: to_world_def bb l)
  show "dot (to_world l n) n = idx3 l 2"
    unfolding tw by (simp add: dot_vadd_left dot_vscale_left tn bn n l)
  show "dot (to_world l n) (to_world l n) = dot l l"
    unfolding tw
    by (simp add: dot_vadd_left dot_vscale_left dot_vadd_right dot_vscale_right
        tt tn n b1 bn tb nt nb bt l)
qed


text \<open>
  C9. For \<open>u1\<close> in \<open>[0,1]\<close> and any \<open>u2\<close>, \<open>cosine_sample_hemisphere u1 u2\<close> is
  \<open>(sqrt u1 * cos (2 pi u2), sqrt u1 * sin (2 pi u2), sqrt (1 - u1))\<close>; its squared Euclidean
  norm is exactly 1 and its \<open>z\<close> component is not negative. Hence, for a unit shading
  normal \<open>n\<close>, the diffuse bounce direction \<open>to_world(local, n).normalized()\<close> has length 1
  and does not point below the surface.
\<close>

theorem cosine_sample_hemisphere_unit:
  assumes "0 \<le> u1" "u1 \<le> 1"
  shows "cosine_sample_hemisphere u1 u2 =
           (sqrt u1 * cos (2 * pi * u2), sqrt u1 * sin (2 * pi * u2), sqrt (1 - u1))
         \<and> dot (cosine_sample_hemisphere u1 u2) (cosine_sample_hemisphere u1 u2) = 1
         \<and> norm_v3 (cosine_sample_hemisphere u1 u2) = 1
         \<and> 0 \<le> idx3 (cosine_sample_hemisphere u1 u2) 2
         \<and> (norm_v3 n = 1 \<longrightarrow>
              norm_v3 (normalized (to_world (cosine_sample_hemisphere u1 u2) n)) = 1
              \<and> 0 \<le> dot (normalized (to_world (cosine_sample_hemisphere u1 u2) n)) n)"
proof -
  let ?c = "cos (2 * pi * u2)" and ?s = "sin (2 * pi * u2)"
  let ?l = "cosine_sample_hemisphere u1 u2"
  have eq: "?l = (sqrt u1 * ?c, sqrt u1 * ?s, sqrt (1 - u1))"
    using assms by (simp add: cosine_sample_hemisphere_def Let_def max_def)
  have sq: "sqrt u1 * sqrt u1 = u1" "sqrt (1 - u1) * sqrt (1 - u1) = 1 - u1"
    using assms by simp_all
  have fact: "(r * c) * (r * c) + (r * s) * (r * s) = (r * r) * (c * c + s * s)" for r c s :: real
    by (simp add: algebra_simps)
  have cs: "?c * ?c + ?s * ?s = 1"
    using sin_cos_squared_add3[of "2 * pi * u2"] by simp
  have xy: "(sqrt u1 * ?c) * (sqrt u1 * ?c) + (sqrt u1 * ?s) * (sqrt u1 * ?s) = u1"
    unfolding fact cs sq(1) by simp
  have d: "dot ?l ?l = 1"
    unfolding eq using xy sq(2) by simp
  have nrm: "norm_v3 ?l = 1"
    by (simp add: norm_v3_dot d)
  have z: "0 \<le> idx3 ?l 2"
    unfolding eq using assms by simp
  have hemi: "norm_v3 (normalized (to_world ?l n)) = 1 \<and> 0 \<le> dot (normalized (to_world ?l n)) n"
    if "norm_v3 n = 1"
  proof -
    have "sqrt (dot n n) = 1" using that by (simp add: norm_v3_dot)
    then have n1: "dot n n = 1" by simp
    have w1: "dot (to_world ?l n) (to_world ?l n) = 1"
      using to_world_dot(1)[OF n1, of ?l] d by simp
    have wn: "dot (to_world ?l n) n = idx3 ?l 2"
      by (rule to_world_dot(2)[OF n1])
    have "norm_v3 (to_world ?l n) = 1" by (simp add: norm_v3_dot w1)
    then have same: "normalized (to_world ?l n) = to_world ?l n"
      by (cases "to_world ?l n") (simp add: normalized_def Let_def)
    show ?thesis
      unfolding same using w1 wn z by (simp add: norm_v3_dot)
  qed
  show ?thesis using eq d nrm z hemi by blast
qed

theorem cosine_sample_hemisphere_unit_witness:
  "(0::real) \<le> 0 \<and> (0::real) \<le> 1 \<and> norm_v3 (0, 0, 1) = 1
   \<and> cosine_sample_hemisphere 0 0 = (0, 0, 1)
   \<and> norm_v3 (normalized (to_world (cosine_sample_hemisphere 0 0) (0, 0, 1))) = 1
   \<and> 0 \<le> dot (normalized (to_world (cosine_sample_hemisphere 0 0) (0, 0, 1))) (0, 0, 1)"
proof -
  note h = cosine_sample_hemisphere_unit[of 0 0 "(0, 0, 1)"]
  from h have e: "cosine_sample_hemisphere 0 0 = (0, 0, 1)" by simp
  show ?thesis using h unfolding e by simp
qed

text \<open>
  C7. The \<open>Camera\<close> constructor throws exactly when the parameters violate \<open>aspect > 0\<close> or
  \<open>0 < z_near < z_far\<close>; then no camera is produced. Otherwise the camera stores exactly the
  transform, field of view, aspect, near and far given.
\<close>

theorem Camera_ctor:
  "(\<exists>e. Camera x f a zn zf = Inl e) = (\<not> (a > 0 \<and> 0 < zn \<and> zn < zf))
   \<and> ((\<exists>c. Camera x f a zn zf = Inr c) = (a > 0 \<and> 0 < zn \<and> zn < zf))
   \<and> (\<forall>c. Camera x f a zn zf = Inr c \<longrightarrow>
         c = \<lparr>c2w = x, fov_y = f, aspect = a, z_near = zn, z_far = zf\<rparr>)"
  by (auto simp add: Camera_def Let_def)

theorem Camera_ctor_witness:
  "Camera Transform_default 1 (16/9) (1/10) 100
     = Inr \<lparr>c2w = Transform_default, fov_y = 1, aspect = 16/9, z_near = 1/10, z_far = 100\<rparr>
   \<and> (\<exists>e. Camera Transform_default 1 (16/9) 5 5 = Inl e)"
  using Camera_ctor[of Transform_default 1 "16/9" "1/10" 100]
    Camera_ctor[of Transform_default 1 "16/9" 5 5]
  by auto

lemma sum3_squares_pos:
  fixes x y z :: real
  assumes "x \<noteq> 0 \<or> y \<noteq> 0 \<or> z \<noteq> 0"
  shows "0 < x * x + y * y + z * z"
proof -
  have nn: "0 \<le> x * x" "0 \<le> y * y" "0 \<le> z * z" by simp_all
  from assms consider "x \<noteq> 0" | "y \<noteq> 0" | "z \<noteq> 0" by blast
  then show ?thesis
  proof cases
    case 1
    then have "0 < x * x" by (auto simp add: zero_less_mult_iff)
    then show ?thesis using nn by linarith
  next
    case 2
    then have "0 < y * y" by (auto simp add: zero_less_mult_iff)
    then show ?thesis using nn by linarith
  next
    case 3
    then have "0 < z * z" by (auto simp add: zero_less_mult_iff)
    then show ?thesis using nn by linarith
  qed
qed

lemma dot_self_pos: "v \<noteq> (0, 0, 0) \<Longrightarrow> 0 < dot v v"
  by (cases v) (simp add: sum3_squares_pos)

lemma fdiv_Num: "y \<noteq> 0 \<Longrightarrow> fdiv x y = Num (x / y)"
  by (simp add: fdiv_def)

lemma fdiv_zero_zero: "fdiv 0 0 = NaN"
  by (simp add: fdiv_def)

text \<open>
  For a ray of non-zero direction both roots are numbers, and \<open>Sphere::intersect\<close> returns no
  hit when the discriminant is negative or neither root lies in \<open>[tmin, tmax]\<close>, a hit at the
  smaller root if that root lies in the interval, and a hit at the larger root otherwise.
\<close>

lemma Sphere_intersect_roots:
  assumes "direction r \<noteq> (0, 0, 0)"
  shows "let oc = vsub (origin r) (sphere_c s);
             a = dot (direction r) (direction r);
             b = 2 * dot oc (direction r);
             c = dot oc oc - sphere_r s * sphere_r s;
             disc = b * b - 4 * a * c;
             small = (- b - sqrt disc) / (2 * a);
             large = (- b + sqrt disc) / (2 * a);
             inside = (\<lambda>t. tmin r \<le> t \<and> t \<le> tmax r)
         in Sphere_roots s r = (Num small, Num large)
          \<and> (disc < 0 \<or> (\<not> inside small \<and> \<not> inside large) \<longrightarrow> Sphere_intersect s r = NoHit)
          \<and> (0 \<le> disc \<longrightarrow> small \<le> large)
          \<and> (0 \<le> disc \<and> inside small \<longrightarrow>
                (\<exists>h. Sphere_intersect s r = Hit h \<and> hit_t h = small))
          \<and> (0 \<le> disc \<and> \<not> inside small \<and> inside large \<longrightarrow>
                (\<exists>h. Sphere_intersect s r = Hit h \<and> hit_t h = large))"
proof -
  define oc where "oc = vsub (origin r) (sphere_c s)"
  define a where "a = dot (direction r) (direction r)"
  define b where "b = 2 * dot oc (direction r)"
  define c where "c = dot oc oc - sphere_r s * sphere_r s"
  define disc where "disc = b * b - 4 * a * c"
  define small where "small = (- b - sqrt disc) / (2 * a)"
  define large where "large = (- b + sqrt disc) / (2 * a)"
  have a: "0 < a" unfolding a_def using assms by (rule dot_self_pos)
  then have a2: "2 * a \<noteq> 0" by simp
  have le: "small \<le> large" if "0 \<le> disc"
  proof -
    have "- b - sqrt disc \<le> - b + sqrt disc" using that by simp
    then show ?thesis unfolding small_def large_def using a by (simp add: divide_right_mono)
  qed
  have t: "hit_t (Sphere_hit_at s r x) = x" for x
    by (simp add: Sphere_hit_at_def Let_def Hit_default_def)
  have q: "fdiv (- b - sqrt disc) (2 * a) = Num small" "fdiv (- b + sqrt disc) (2 * a) = Num large"
    unfolding small_def large_def using a2 by (simp_all add: fdiv_Num)
  have roots: "Sphere_roots s r = (Num small, Num large)"
  proof -
    have "Sphere_roots s r = (fdiv (- b - sqrt disc) (2 * a), fdiv (- b + sqrt disc) (2 * a))"
      unfolding Sphere_roots_def Let_def oc_def a_def b_def c_def disc_def by (rule refl)
    then show ?thesis by (simp only: q)
  qed
  have raw: "Sphere_intersect s r =
      (if disc < 0 then NoHit
       else case (if fless (fdiv (- b + sqrt disc) (2 * a)) (fdiv (- b - sqrt disc) (2 * a))
                  then (fdiv (- b + sqrt disc) (2 * a), fdiv (- b - sqrt disc) (2 * a))
                  else (fdiv (- b - sqrt disc) (2 * a), fdiv (- b + sqrt disc) (2 * a))) of
              (t0, t1) \<Rightarrow>
                if fless t0 (Num (tmin r)) \<or> fless (Num (tmax r)) t0 then
                  (if fless t1 (Num (tmin r)) \<or> fless (Num (tmax r)) t1 then NoHit
                   else Sphere_hit s r t1)
                else Sphere_hit s r t0)"
    unfolding Sphere_intersect_def Let_def oc_def a_def b_def c_def disc_def
    by (rule refl)
  have unf: "Sphere_intersect s r =
      (if disc < 0 then NoHit
       else if small < tmin r \<or> small > tmax r then
              (if large < tmin r \<or> large > tmax r then NoHit else Hit (Sphere_hit_at s r large))
            else Hit (Sphere_hit_at s r small))"
  proof (cases "disc < 0")
    case True
    then show ?thesis unfolding raw by simp
  next
    case False
    then have "\<not> small > large" using le by simp
    then show ?thesis unfolding raw q using False by (simp add: Sphere_hit_def)
  qed
  have main: "Sphere_roots s r = (Num small, Num large)
          \<and> (disc < 0 \<or> (\<not> (tmin r \<le> small \<and> small \<le> tmax r) \<and> \<not> (tmin r \<le> large \<and> large \<le> tmax r))
                \<longrightarrow> Sphere_intersect s r = NoHit)
          \<and> (0 \<le> disc \<longrightarrow> small \<le> large)
          \<and> (0 \<le> disc \<and> (tmin r \<le> small \<and> small \<le> tmax r) \<longrightarrow>
                (\<exists>h. Sphere_intersect s r = Hit h \<and> hit_t h = small))
          \<and> (0 \<le> disc \<and> \<not> (tmin r \<le> small \<and> small \<le> tmax r) \<and> (tmin r \<le> large \<and> large \<le> tmax r) \<longrightarrow>
                (\<exists>h. Sphere_intersect s r = Hit h \<and> hit_t h = large))"
    unfolding unf using le t roots by (auto simp add: not_less)
  show ?thesis
    unfolding Let_def
    using main
    unfolding oc_def a_def b_def c_def disc_def small_def large_def
    by (rule iffD1[OF refl])
qed

lemma Sphere_intersect_example:
  "Sphere_intersect \<lparr>sphere_c = (0, 0, 0), sphere_r = 1\<rparr> (Ray (0, 0, 3) (0, 0, -1) 0 100)
     = Hit \<lparr>hit_t = 2, hit_normal = (0, 0, 1), hit_uv = (0, 0)\<rparr>"
  by (simp add: Sphere_intersect_def Sphere_hit_def Sphere_hit_at_def Hit_default_def fdiv_def
      ray_at_def Ray_def Let_def)

text \<open>
  For a ray of zero direction \<open>a\<close>, \<open>b\<close> and the discriminant are zero, both roots are
  \<open>0/0\<close>, no comparison rejects them, and a hit is returned whose \<open>t\<close> is NaN.
\<close>

lemma Sphere_intersect_zero_direction:
  assumes "direction r = (0, 0, 0)"
  shows "Sphere_roots s r = (NaN, NaN) \<and> Sphere_intersect s r = HitNotNum NaN"
proof -
  obtain x y z where oc: "vsub (origin r) (sphere_c s) = (x, y, z)"
    by (cases "vsub (origin r) (sphere_c s)") auto
  show ?thesis
    by (simp add: Sphere_roots_def Sphere_intersect_def Sphere_hit_def Let_def assms oc
        fdiv_zero_zero)
qed

text \<open>
  C4. \<open>Sphere::intersect\<close> should return no hit when the discriminant is negative or
  neither root lies in \<open>[tmin, tmax]\<close>, and otherwise a hit at the smaller root if that root
  lies in the interval and at the larger root if not. It does so for every ray of non-zero
  direction (\<open>Sphere_intersect_roots\<close>). For the unit sphere and the ray from \<open>(0,0,3)\<close> with
  direction \<open>(0,0,0)\<close> and interval \<open>[0, 100]\<close> both roots are NaN, neither lies in the
  interval, and a hit is returned all the same.
\<close>

theorem Sphere_intersect_zero_direction_hit:
  "Sphere_roots \<lparr>sphere_c = (0, 0, 0), sphere_r = 1\<rparr> (Ray (0, 0, 3) (0, 0, 0) 0 100) = (NaN, NaN)
   \<and> \<not> in_interval (Ray (0, 0, 3) (0, 0, 0) 0 100) NaN
   \<and> Sphere_intersect \<lparr>sphere_c = (0, 0, 0), sphere_r = 1\<rparr> (Ray (0, 0, 3) (0, 0, 0) 0 100)
       = HitNotNum NaN
   \<and> Sphere_intersect \<lparr>sphere_c = (0, 0, 0), sphere_r = 1\<rparr> (Ray (0, 0, 3) (0, 0, 0) 0 100)
       \<noteq> NoHit"
  by (simp add: Sphere_roots_def Sphere_intersect_def Sphere_hit_def in_interval_def Ray_def Let_def
      fdiv_zero_zero)

text \<open>
  A hit made of numbers returned by \<open>Sphere::intersect\<close>, and any hit returned by
  \<open>Plane::intersect\<close> or \<open>intersect_triangle\<close>, has its parameter within the interval of the
  ray.
\<close>

lemma hits_within_interval:
  "(Sphere_intersect s r = Hit h \<longrightarrow> tmin r \<le> hit_t h \<and> hit_t h \<le> tmax r)
   \<and> (Plane_intersect pl r = Some h' \<longrightarrow> tmin r \<le> hit_t h' \<and> hit_t h' \<le> tmax r)
   \<and> (intersect_triangle p0 p1 p2 r = Some th \<longrightarrow> tmin r \<le> tri_t th \<and> tri_t th \<le> tmax r)"
proof (intro conjI impI)
  assume h: "Sphere_intersect s r = Hit h"
  have "tmin r \<le> hit_t h \<and> hit_t h \<le> tmax r"
  proof (cases "direction r = (0, 0, 0)")
    case True
    then show ?thesis using h Sphere_intersect_zero_direction[OF True, of s] by simp
  next
    case False
    have t: "hit_t (Sphere_hit_at s r x) = x" for x
      by (simp add: Sphere_hit_at_def Let_def Hit_default_def)
    have "0 < dot (direction r) (direction r)" using False by (rule dot_self_pos)
    then have nz: "2 * dot (direction r) (direction r) \<noteq> 0" by simp
    show ?thesis
      using h
      by (auto simp add: Sphere_intersect_def Sphere_hit_def Let_def fdiv_Num[OF nz] t
          split: if_splits)
  qed
  then show "tmin r \<le> hit_t h" "hit_t h \<le> tmax r" by simp_all
next
  assume "Plane_intersect pl r = Some h'"
  then show "tmin r \<le> hit_t h'" "hit_t h' \<le> tmax r"
    by (auto simp add: Plane_intersect_def Hit_default_def Let_def split: if_splits)
next
  assume "intersect_triangle p0 p1 p2 r = Some th"
  then show "tmin r \<le> tri_t th" "tri_t th \<le> tmax r"
    by (auto simp add: intersect_triangle_def Let_def split: if_splits)
qed

text \<open>
  C10. Any hit returned by \<open>Sphere::intersect\<close>, \<open>Plane::intersect\<close> or
  \<open>intersect_triangle\<close> should have its parameter within the interval of the ray. The plane
  and the triangle test keep to that, and so does the sphere for a ray of non-zero direction
  (\<open>hits_within_interval\<close>). For the sphere of centre \<open>(1,2,3)\<close> and radius 2 and the ray from
  its centre with direction \<open>(0,0,0)\<close> and interval \<open>[0, 1]\<close>, a hit is returned whose \<open>t\<close> is
  NaN, which lies in no interval.
\<close>

theorem Sphere_hit_not_within_interval:
  "result_t (Sphere_intersect \<lparr>sphere_c = (1, 2, 3), sphere_r = 2\<rparr> (Ray (1, 2, 3) (0, 0, 0) 0 1))
     = Some NaN
   \<and> \<not> in_interval (Ray (1, 2, 3) (0, 0, 0) 0 1) NaN"
  by (simp add: Sphere_intersect_def Sphere_hit_def in_interval_def Ray_def Let_def fdiv_zero_zero)

lemma norm_vdiv_self:
  assumes "norm_v3 v \<noteq> 0"
  shows "norm_v3 (vdiv v (norm_v3 v)) = 1"
proof -
  have pos: "0 < dot v v"
    using assms dot_self_nonneg[of v] by (cases "dot v v = 0") (simp_all add: norm_v3_dot)
  have "normalized v = vdiv v (norm_v3 v)" using assms by (simp add: normalized_def Let_def)
  then have "dot (vdiv v (norm_v3 v)) (vdiv v (norm_v3 v)) = 1"
    using normalized_unit(1)[OF pos] by simp
  then show ?thesis by (simp add: norm_v3_dot)
qed

text \<open>
  C3. \<open>to_object_ray_\<close> maps the origin by the inverse matrix as a point (with translation)
  and the direction as a direction (without). If the mapped direction \<open>d_obj\<close> has length
  \<open>len \<noteq> 0\<close>, the object ray has the unit direction \<open>d_obj / len\<close> and the interval
  \<open>[tmin * len, tmax * len]\<close>; if \<open>len = 0\<close> it carries \<open>d_obj\<close> and the interval unchanged.
\<close>

theorem to_object_ray_maps:
  "let M = inv_world ob;
       (ox, oy, oz) = origin r;
       (dx, dy, dz) = direction r;
       o_obj = (M 0 0 * ox + M 0 1 * oy + M 0 2 * oz + M 0 3,
                M 1 0 * ox + M 1 1 * oy + M 1 2 * oz + M 1 3,
                M 2 0 * ox + M 2 1 * oy + M 2 2 * oz + M 2 3);
       d_obj = (M 0 0 * dx + M 0 1 * dy + M 0 2 * dz,
                M 1 0 * dx + M 1 1 * dy + M 1 2 * dz,
                M 2 0 * dx + M 2 1 * dy + M 2 2 * dz);
       len = norm_v3 d_obj
   in origin (to_object_ray ob r) = o_obj
      \<and> (len \<noteq> 0 \<longrightarrow>
            direction (to_object_ray ob r) = vdiv d_obj len
            \<and> norm_v3 (direction (to_object_ray ob r)) = 1
            \<and> tmin (to_object_ray ob r) = tmin r * len
            \<and> tmax (to_object_ray ob r) = tmax r * len)
      \<and> (len = 0 \<longrightarrow>
            direction (to_object_ray ob r) = d_obj
            \<and> tmin (to_object_ray ob r) = tmin r
            \<and> tmax (to_object_ray ob r) = tmax r)"
proof -
  obtain ox oy oz where o: "origin r = (ox, oy, oz)" by (cases "origin r") auto
  obtain dx dy dz where d: "direction r = (dx, dy, dz)" by (cases "direction r") auto
  define M where "M = inv_world ob"
  define d_obj where "d_obj = (M 0 0 * dx + M 0 1 * dy + M 0 2 * dz,
                M 1 0 * dx + M 1 1 * dy + M 1 2 * dz,
                M 2 0 * dx + M 2 1 * dy + M 2 2 * dz)"
  have dm: "resize_dim_4_3 (mat4_mul_vec (inv_world ob) (to_homogeneous_dir (direction r))) = d_obj"
    by (simp add: d d_obj_def M_def)
  have unit: "norm_v3 d_obj \<noteq> 0 \<Longrightarrow> norm_v3 (vdiv d_obj (norm_v3 d_obj)) = 1"
    by (rule norm_vdiv_self)
  have res: "to_object_ray ob r =
      (if norm_v3 d_obj \<noteq> 0
       then Ray (M 0 0 * ox + M 0 1 * oy + M 0 2 * oz + M 0 3,
                M 1 0 * ox + M 1 1 * oy + M 1 2 * oz + M 1 3,
                M 2 0 * ox + M 2 1 * oy + M 2 2 * oz + M 2 3) (vdiv d_obj (norm_v3 d_obj))
              (tmin r * norm_v3 d_obj) (tmax r * norm_v3 d_obj)
       else Ray (M 0 0 * ox + M 0 1 * oy + M 0 2 * oz + M 0 3,
                M 1 0 * ox + M 1 1 * oy + M 1 2 * oz + M 1 3,
                M 2 0 * ox + M 2 1 * oy + M 2 2 * oz + M 2 3) d_obj (tmin r) (tmax r))"
    unfolding to_object_ray_def dm by (simp add: Let_def o M_def)
  show ?thesis
    unfolding Let_def o d prod.case M_def[symmetric] d_obj_def[symmetric] res
    using unit by (simp add: Ray_def)
qed

theorem to_object_ray_maps_witness:
  "norm_v3 (0, 0, -2) \<noteq> 0
   \<and> to_object_ray (SceneObject (Some (Plane_geometry \<lparr>plane_p0 = (0, 0, 0), plane_n = (0, 0, 1)\<rparr>))
        Material_default
        (Transform (\<lambda>r c. if r = c then (if r < 3 then 1/2 else 1) else 0)
                   (\<lambda>r c. if r = c then (if r < 3 then 2 else 1) else 0)))
       (Ray (0, 0, 2) (0, 0, -1) 0 2)
     = Ray (0, 0, 4) (0, 0, -1) 0 4"
proof -
  let ?ob = "SceneObject (Some (Plane_geometry \<lparr>plane_p0 = (0, 0, 0), plane_n = (0, 0, 1)\<rparr>))
        Material_default
        (Transform (\<lambda>r c. if r = c then (if r < 3 then 1/2 else 1) else 0)
                   (\<lambda>r c. if r = c then (if r < 3 then 2 else 1) else 0))"
  let ?r = "Ray (0, 0, 2) (0, 0, -1) 0 2"
  have M: "inv_world ?ob = (\<lambda>r c. if r = c then (if r < 3 then 2 else 1) else 0)"
    by (simp add: SceneObject_def update_aabb_def cache_from_transform_def Transform_def Let_def
        Plane_geometry_def)
  have n: "norm_v3 (0, 0, -2) = 2" by simp
  have "origin (to_object_ray ?ob ?r) = (0, 0, 4)
        \<and> direction (to_object_ray ?ob ?r) = (0, 0, -1)
        \<and> tmin (to_object_ray ?ob ?r) = 0 \<and> tmax (to_object_ray ?ob ?r) = 4"
    using to_object_ray_maps[of ?ob ?r] unfolding M Let_def
    by (simp add: Ray_def)
  then show ?thesis using n by (simp add: Ray_def)
qed

lemma foldl_max_ge: "t \<le> foldl (\<lambda>t i. max t (f i)) (t::real) xs"
proof (induction xs arbitrary: t)
  case Nil
  show ?case by simp
next
  case (Cons x xs)
  have "t \<le> max t (f x)" by simp
  also have "\<dots> \<le> foldl (\<lambda>t i. max t (f i)) (max t (f x)) xs" by (rule Cons.IH)
  finally show ?case by simp
qed

lemma foldl_min_le: "foldl (\<lambda>t i. min t (f i)) (t::real) xs \<le> t"
proof (induction xs arbitrary: t)
  case Nil
  show ?case by simp
next
  case (Cons x xs)
  have "foldl (\<lambda>t i. min t (f i)) (min t (f x)) xs \<le> min t (f x)" by (rule Cons.IH)
  also have "\<dots> \<le> t" by simp
  finally show ?case by simp
qed

lemma crossings_ordered:
  fixes lo hi :: real
  assumes "d \<noteq> 0"
  shows "(let invD = 1 / d; t_near = lo * invD; t_far = hi * invD
          in (if t_near > t_far then (t_far, t_near) else (t_near, t_far)))
         = (min (lo / d) (hi / d), max (lo / d) (hi / d))"
  by (simp add: Let_def min_def max_def)

lemma AABB_intersect_loop_spec:
  "AABB_intersect_loop b r axes t0 t1 =
     (if list_ex (outside_slab b r) (filter (\<lambda>i. idx3 (direction r) i = 0) axes) then None
      else if filter (\<lambda>i. idx3 (direction r) i \<noteq> 0) axes = [] then Some (t0, t1)
      else slab_spec_on b r axes t0 t1)"
proof (induction axes arbitrary: t0 t1)
  case Nil
  show ?case by simp
next
  case (Cons i rest)
  show ?case
  proof (cases "idx3 (direction r) i = 0")
    case True
    then show ?thesis
      by (simp add: Cons.IH slab_spec_on_def Let_def outside_slab_def)
  next
    case False
    define a where "a = max t0 (slab_near b r i)"
    define c where "c = min t1 (slab_far b r i)"
    let ?np = "filter (\<lambda>i. idx3 (direction r) i \<noteq> 0) rest"
    let ?N = "foldl (\<lambda>t i. max t (slab_near b r i)) a ?np"
    let ?F = "foldl (\<lambda>t i. min t (slab_far b r i)) c ?np"
    have step: "AABB_intersect_loop b r (i # rest) t0 t1 =
                  (if c < a then None else AABB_intersect_loop b r rest a c)"
      using False
      by (simp add: Let_def a_def c_def slab_near_def slab_far_def min_def max_def)
    have mono: "a \<le> ?N" "?F \<le> c" by (rule foldl_max_ge, rule foldl_min_le)
    have spec: "slab_spec_on b r (i # rest) t0 t1 =
        (if list_ex (outside_slab b r) (filter (\<lambda>i. idx3 (direction r) i = 0) rest) then None
         else if ?F < ?N then None else Some (?N, ?F))"
      using False by (simp add: slab_spec_on_def Let_def a_def c_def)
    have spec_rest: "slab_spec_on b r rest a c =
        (if list_ex (outside_slab b r) (filter (\<lambda>i. idx3 (direction r) i = 0) rest) then None
         else if ?F < ?N then None else Some (?N, ?F))"
      by (simp add: slab_spec_on_def Let_def)
    show ?thesis
    proof (cases "c < a")
      case True
      then have "?F < ?N" using mono by linarith
      then show ?thesis unfolding step spec using False True by simp
    next
      case nle: False
      show ?thesis
      proof (cases "?np = []")
        case True
        then show ?thesis unfolding step spec Cons.IH using False nle by simp
      next
        case np: False
        then show ?thesis unfolding step spec Cons.IH spec_rest using False nle by simp
      qed
    qed
  qed
qed

text \<open>
  For a non-empty box, \<open>AABB::intersect\<close> is the slab method of the specification whenever
  some direction component is non-zero or \<open>tmin \<le> tmax\<close>. When all three direction
  components are zero, no axis reaches the test \<open>t1 < t0\<close>, and the result is no hit if the
  origin is outside some slab and \<open>{tmin, tmax}\<close> otherwise.
\<close>

lemma AABB_intersect_slab:
  assumes "\<not> AABB_empty b"
  shows "(direction r \<noteq> (0, 0, 0) \<or> tmin r \<le> tmax r \<longrightarrow> AABB_intersect b r = slab_spec b r)
       \<and> (direction r = (0, 0, 0) \<longrightarrow>
            AABB_intersect b r =
              (if outside_slab b r 0 \<or> outside_slab b r 1 \<or> outside_slab b r 2 then None
               else Some (tmin r, tmax r)))"
proof -
  obtain dx dy dz where d: "direction r = (dx, dy, dz)" by (cases "direction r") auto
  have loop: "AABB_intersect b r =
     (if list_ex (outside_slab b r) (filter (\<lambda>i. idx3 (direction r) i = 0) [0, 1, 2]) then None
      else if filter (\<lambda>i. idx3 (direction r) i \<noteq> 0) [0, 1, 2] = [] then Some (tmin r, tmax r)
      else slab_spec b r)"
    using assms by (simp only: AABB_intersect_def slab_spec_def AABB_intersect_loop_spec if_False)
  have none: "slab_spec b r = None"
    if "list_ex (outside_slab b r) (filter (\<lambda>i. idx3 (direction r) i = 0) [0, 1, 2])"
    using that by (simp only: slab_spec_def slab_spec_on_def Let_def if_True)
  have zero: "filter (\<lambda>i. idx3 (direction r) i \<noteq> 0) [0, 1, 2] = [] \<longleftrightarrow> direction r = (0, 0, 0)"
    by (auto simp add: d)
  have allpar: "slab_spec b r =
       (if outside_slab b r 0 \<or> outside_slab b r 1 \<or> outside_slab b r 2 then None
        else if tmax r < tmin r then None else Some (tmin r, tmax r))"
    if "direction r = (0, 0, 0)"
    using that by (simp add: slab_spec_def slab_spec_on_def Let_def)
  have A: "AABB_intersect b r = slab_spec b r" if "direction r \<noteq> (0, 0, 0) \<or> tmin r \<le> tmax r"
  proof (cases "direction r = (0, 0, 0)")
    case True
    then have le: "tmin r \<le> tmax r" using that by simp
    have "filter (\<lambda>i. idx3 (direction r) i = 0) [0, 1, 2] = [0, 1, 2]" using True by simp
    then show ?thesis
      unfolding loop allpar[OF True] using True le zero by simp
  next
    case False
    then have nz: "filter (\<lambda>i. idx3 (direction r) i \<noteq> 0) [0, 1, 2] \<noteq> []" using zero by simp
    show ?thesis
    proof (cases "list_ex (outside_slab b r) (filter (\<lambda>i. idx3 (direction r) i = 0) [0, 1, 2])")
      case True
      then show ?thesis unfolding loop none[OF True] by (simp only: if_True)
    next
      case ex: False
      show ?thesis unfolding loop using ex nz by (simp only: if_False)
    qed
  qed
  have B: "AABB_intersect b r =
              (if outside_slab b r 0 \<or> outside_slab b r 1 \<or> outside_slab b r 2 then None
               else Some (tmin r, tmax r))" if "direction r = (0, 0, 0)"
  proof -
    have "filter (\<lambda>i. idx3 (direction r) i = 0) [0, 1, 2] = [0, 1, 2]" using that by simp
    moreover have "filter (\<lambda>i. idx3 (direction r) i \<noteq> 0) [0, 1, 2] = []" using that by simp
    ultimately show ?thesis unfolding loop by simp
  qed
  show ?thesis using A B by blast
qed

text \<open>
  C5. \<open>AABB::intersect\<close> should be the 3-axis slab method, in which an empty final interval
  is no hit. The test \<open>t1 < t0\<close> is made only after the update for an axis of non-zero
  direction; an axis of zero direction leaves the loop body by \<open>continue\<close> before it. For the
  box \<open>[0,1]^3\<close> and the ray from \<open>(0,0,0)\<close> with direction \<open>(0,0,0)\<close>, \<open>tmin = 1\<close> and
  \<open>tmax = 0\<close>, the interval is empty from the start and \<open>{1, 0}\<close> is returned, where the slab
  method gives no hit; the same interval with the direction \<open>(0,0,1)\<close> is no hit.
\<close>

theorem AABB_intersect_inverted_interval:
  "\<not> AABB_empty \<lparr>aabb_min = (0, 0, 0), aabb_max = (1, 1, 1)\<rparr>
   \<and> AABB_intersect \<lparr>aabb_min = (0, 0, 0), aabb_max = (1, 1, 1)\<rparr> (Ray (0, 0, 0) (0, 0, 0) 1 0)
       = Some (1, 0)
   \<and> slab_spec \<lparr>aabb_min = (0, 0, 0), aabb_max = (1, 1, 1)\<rparr> (Ray (0, 0, 0) (0, 0, 0) 1 0) = None
   \<and> AABB_intersect \<lparr>aabb_min = (0, 0, 0), aabb_max = (1, 1, 1)\<rparr> (Ray (0, 0, 0) (0, 0, 1) 1 0)
       = None"
  by (simp add: AABB_empty_def AABB_intersect_def slab_spec_def slab_spec_on_def outside_slab_def
      Ray_def Let_def)

lemma row_start_Suc:
  "row_start rpt rm (Suc t) = row_start rpt rm t + (rpt + (if t < rm then 1 else 0))"
  by (simp add: row_start_def min_def)

lemma row_start_mono: "s \<le> t \<Longrightarrow> row_start rpt rm s \<le> row_start rpt rm t"
  unfolding row_start_def by (intro add_mono mult_le_mono1 min.mono) simp_all

lemma split_rows_closed:
  "y0 = row_start rpt rm t \<Longrightarrow>
   split_rows rpt rm tc t y0 = map (\<lambda>j. (row_start rpt rm j, row_start rpt rm (Suc j))) [t..<tc]"
proof (induction rpt rm tc t y0 rule: split_rows.induct)
  case (1 rpt rm tc t y0)
  show ?case
  proof (cases "t < tc")
    case True
    have next_start: "y0 + (rpt + (if t < rm then 1 else 0)) = row_start rpt rm (Suc t)"
      using "1.prems" by (simp only: row_start_Suc)
    have "split_rows rpt rm tc t y0 =
            (y0, row_start rpt rm (Suc t)) # split_rows rpt rm tc (Suc t) (row_start rpt rm (Suc t))"
      using True next_start by (subst split_rows.simps) (simp add: Let_def)
    also have "split_rows rpt rm tc (Suc t) (row_start rpt rm (Suc t)) =
            map (\<lambda>j. (row_start rpt rm j, row_start rpt rm (Suc j))) [Suc t..<tc]"
      using "1.IH"[OF True refl refl] next_start by simp
    finally show ?thesis using True "1.prems" by (simp add: upt_conv_Cons)
  next
    case False
    then show ?thesis by (subst split_rows.simps) simp
  qed
qed

lemma union_consecutive:
  fixes f :: "nat \<Rightarrow> nat"
  assumes "\<And>j. f j \<le> f (Suc j)"
  shows "(\<Union>t<n. {f t..<f (Suc t)}) = {f 0..<f n}"
proof (induction n)
  case 0
  show ?case by simp
next
  case (Suc n)
  have mono: "f 0 \<le> f n" by (induction n) (auto intro: order_trans assms)
  have "(\<Union>t<Suc n. {f t..<f (Suc t)}) = (\<Union>t<n. {f t..<f (Suc t)}) \<union> {f n..<f (Suc n)}"
    by (simp add: lessThan_Suc Un_commute)
  also have "\<dots> = {f 0..<f n} \<union> {f n..<f (Suc n)}" by (simp only: Suc.IH)
  also have "\<dots> = {f 0..<f (Suc n)}" using mono assms[of n] by (rule ivl_disj_un_two(3))
  finally show ?case .
qed

text \<open>
  C8. For \<open>height \<ge> 1\<close> (and a non-zero width, without which \<open>render\<close> starts no thread) and any
  reported hardware concurrency, \<open>render\<close> starts \<open>thread_count = min(hw, height)\<close> workers;
  worker \<open>t\<close> gets the rows \<open>[y0 t, y1 t)\<close> with \<open>height / thread_count\<close> rows plus one when
  \<open>t < height mod thread_count\<close>; the ranges follow one another from 0 to \<open>height\<close>, so they
  are pairwise disjoint, their union is \<open>[0, height)\<close>, and two ranges differ in size by at
  most one row.
\<close>

theorem render_ranges_partition:
  assumes "1 \<le> height" "1 \<le> width"
  shows "let hw = (if hc \<noteq> 0 then hc else 4);
             thread_count = min hw height;
             rows_per_thread = height div thread_count;
             remainder = height mod thread_count;
             rs = render_ranges hc width height;
             y0 = (\<lambda>t. fst (rs ! t));
             y1 = (\<lambda>t. snd (rs ! t))
         in length rs = thread_count
          \<and> (\<forall>t<thread_count.
                y1 t = y0 t + rows_per_thread + (if t < remainder then 1 else 0) \<and> y1 t \<le> height)
          \<and> y0 0 = 0
          \<and> (\<forall>t. Suc t < thread_count \<longrightarrow> y0 (Suc t) = y1 t)
          \<and> y1 (thread_count - 1) = height
          \<and> (\<forall>s<thread_count. \<forall>t<thread_count. s \<noteq> t \<longrightarrow> {y0 s..<y1 s} \<inter> {y0 t..<y1 t} = {})
          \<and> (\<Union>t<thread_count. {y0 t..<y1 t}) = {0..<height}
          \<and> (\<forall>s<thread_count. \<forall>t<thread_count. y1 s - y0 s \<le> (y1 t - y0 t) + 1)"
proof -
  define hw where "hw = (if hc \<noteq> 0 then hc else 4)"
  define tc where "tc = min hw height"
  define rpt where "rpt = height div tc"
  define rm where "rm = height mod tc"
  define st where "st = row_start rpt rm"
  define rs where "rs = render_ranges hc width height"
  have tc_pos: "0 < tc" using assms(1) by (auto simp add: tc_def hw_def)
  have rm_lt: "rm < tc" unfolding rm_def using tc_pos by simp
  have rs_eq: "rs = map (\<lambda>j. (st j, st (Suc j))) [0..<tc]"
    unfolding rs_def st_def
    using assms split_rows_closed[of 0 rpt rm 0 tc]
    by (simp add: render_ranges_def Let_def hw_def tc_def rpt_def rm_def row_start_def)
  have len: "length rs = tc" by (simp add: rs_eq)
  have nth: "rs ! t = (st t, st (Suc t))" if "t < tc" for t
    using that by (simp add: rs_eq)
  have st0: "st 0 = 0" by (simp add: st_def row_start_def)
  have st_tc: "st tc = height"
  proof -
    have "st tc = tc * rpt + rm" using rm_lt by (simp add: st_def row_start_def min_def)
    then show ?thesis by (simp add: rpt_def rm_def)
  qed
  have st_Suc: "st (Suc t) = st t + rpt + (if t < rm then 1 else 0)" for t
    by (simp add: st_def row_start_Suc)
  have st_mono: "st s \<le> st t" if "s \<le> t" for s t
    unfolding st_def using that by (rule row_start_mono)
  have st_le: "st (Suc t) \<le> height" if "t < tc" for t
    using st_mono[of "Suc t" tc] that st_tc by simp
  have F2: "\<forall>t<tc. snd (rs ! t) = fst (rs ! t) + rpt + (if t < rm then 1 else 0)
               \<and> snd (rs ! t) \<le> height"
  proof (intro allI impI)
    fix t assume t: "t < tc"
    show "snd (rs ! t) = fst (rs ! t) + rpt + (if t < rm then 1 else 0) \<and> snd (rs ! t) \<le> height"
      unfolding nth[OF t] fst_conv snd_conv using st_Suc[of t] st_le[OF t] by simp
  qed
  have F3: "fst (rs ! 0) = 0" using tc_pos nth[of 0] st0 by simp
  have F4: "\<forall>t. Suc t < tc \<longrightarrow> fst (rs ! Suc t) = snd (rs ! t)"
  proof (intro allI impI)
    fix t assume t: "Suc t < tc"
    then have t': "t < tc" by simp
    show "fst (rs ! Suc t) = snd (rs ! t)" unfolding nth[OF t] nth[OF t'] by simp
  qed
  have F5: "snd (rs ! (tc - 1)) = height"
  proof -
    have "tc - 1 < tc" using tc_pos by simp
    from nth[OF this] show ?thesis using tc_pos st_tc by simp
  qed
  have F6: "\<forall>s<tc. \<forall>t<tc. s \<noteq> t \<longrightarrow>
              {fst (rs ! s)..<snd (rs ! s)} \<inter> {fst (rs ! t)..<snd (rs ! t)} = {}"
  proof (intro allI impI)
    fix s t assume s: "s < tc" and t: "t < tc" and ne: "s \<noteq> t"
    have "{st s..<st (Suc s)} \<inter> {st t..<st (Suc t)} = {}"
    proof (cases "s < t")
      case True
      then have "st (Suc s) \<le> st t" by (intro st_mono) simp
      then show ?thesis by auto
    next
      case False
      then have "t < s" using ne by simp
      then have "st (Suc t) \<le> st s" by (intro st_mono) simp
      then show ?thesis by auto
    qed
    then show "{fst (rs ! s)..<snd (rs ! s)} \<inter> {fst (rs ! t)..<snd (rs ! t)} = {}"
      unfolding nth[OF s] nth[OF t] by simp
  qed
  have un: "(\<Union>t<tc. {st t..<st (Suc t)}) = {0..<height}"
    using union_consecutive[of st tc] st_mono st0 st_tc by simp
  have F7: "(\<Union>t<tc. {fst (rs ! t)..<snd (rs ! t)}) = {0..<height}"
    using un nth by simp
  have F8: "\<forall>s<tc. \<forall>t<tc. snd (rs ! s) - fst (rs ! s) \<le> (snd (rs ! t) - fst (rs ! t)) + 1"
  proof (intro allI impI)
    fix s t assume s: "s < tc" and t: "t < tc"
    show "snd (rs ! s) - fst (rs ! s) \<le> (snd (rs ! t) - fst (rs ! t)) + 1"
      unfolding nth[OF s] nth[OF t] by (simp add: st_Suc)
  qed
  show ?thesis
    unfolding Let_def
    using len F2 F3 F4 F5 F6 F7 F8
    unfolding hw_def tc_def rpt_def rm_def rs_def
    by (intro conjI)
qed

theorem render_ranges_partition_witness:
  "(1::nat) \<le> 10 \<and> (1::nat) \<le> 1
   \<and> render_ranges 4 1 10 = [(0, 3), (3, 6), (6, 8), (8, 10)]
   \<and> length (render_ranges 4 1 10) = 4
   \<and> snd (render_ranges 4 1 10 ! 3) = 10"
proof -
  have e: "render_ranges 4 1 10 = [(0, 3), (3, 6), (6, 8), (8, 10)]" by code_simp
  have h: "(1::nat) \<le> 10" "(1::nat) \<le> 1" by simp_all
  show ?thesis
    using render_ranges_partition[OF h, of 4] unfolding e Let_def by simp
qed

lemma SceneObject_intersect_range:
  assumes "SceneObject_intersect ob ray = Some h"
  shows "tmin ray \<le> hit_t h" "hit_t h \<le> tmax ray" "AABB_intersect (aabb_world ob) ray \<noteq> None"
  using assms
  by (auto simp add: SceneObject_intersect_def aabb_hits_def Let_def
      split: option.splits if_splits)

lemma scan_object_hit:
  assumes "SceneObject_intersect ob ray = Some h" "hit_t h \<le> best_t st"
  shows "scan_object ray st ob =
           \<lparr>best_t = hit_t h, best_n = normalized (hit_normal h), best_p = ray_at ray (hit_t h),
            best_uv = hit_uv h, best_m = Some (mat ob), any_hit = True\<rparr>"
  using assms SceneObject_intersect_range[OF assms(1)]
  by (auto simp add: scan_object_def)

lemma scan_object_skip:
  assumes "\<And>h. SceneObject_intersect ob ray = Some h \<Longrightarrow> best_t st < hit_t h"
  shows "scan_object ray st ob = st"
proof (cases "SceneObject_intersect ob ray")
  case None
  then show ?thesis by (simp add: scan_object_def)
next
  case (Some h)
  then show ?thesis using assms[OF Some] by (simp add: scan_object_def)
qed

lemma scan_skip_all:
  assumes "\<And>ob h. ob \<in> set xs \<Longrightarrow> SceneObject_intersect ob ray = Some h \<Longrightarrow> best_t st < hit_t h"
  shows "foldl (scan_object ray) st xs = st"
  using assms
proof (induction xs arbitrary: st)
  case Nil
  show ?case by simp
next
  case (Cons x xs)
  have x: "scan_object ray st x = st"
    by (rule scan_object_skip) (rule Cons.prems, simp_all)
  have "foldl (scan_object ray) st xs = st"
    by (rule Cons.IH) (rule Cons.prems, simp_all)
  then show ?case using x by simp
qed

lemma scan_best_t_lower:
  assumes "\<And>ob h. ob \<in> set xs \<Longrightarrow> SceneObject_intersect ob ray = Some h \<Longrightarrow> c \<le> hit_t h"
    and "c \<le> best_t st"
  shows "c \<le> best_t (foldl (scan_object ray) st xs)"
  using assms
proof (induction xs arbitrary: st)
  case Nil
  then show ?case by simp
next
  case (Cons x xs)
  have "c \<le> best_t (scan_object ray st x)"
    using Cons.prems(1)[of x] Cons.prems(2)
    by (auto simp add: scan_object_def split: option.splits)
  then have "c \<le> best_t (foldl (scan_object ray) (scan_object ray st x) xs)"
    by (intro Cons.IH) (rule Cons.prems(1), simp_all)
  then show ?case by simp
qed

lemma AABB_expand_eval:
  "AABB_expand \<lparr>aabb_min = (a0, a1, a2), aabb_max = (b0, b1, b2)\<rparr> (p0, p1, p2) =
     (if a0 \<le> b0 \<and> a1 \<le> b1 \<and> a2 \<le> b2
      then \<lparr>aabb_min = (min p0 a0, min p1 a1, min p2 a2), aabb_max = (max p0 b0, max p1 b1, max p2 b2)\<rparr>
      else \<lparr>aabb_min = (p0, p1, p2), aabb_max = (p0, p1, p2)\<rparr>)"
  by (simp add: AABB_expand_def AABB_empty_def min_def max_def)

lemma near_plane_object_fields:
  "aabb_world (SceneObject (Some (Plane_geometry \<lparr>plane_p0 = (0, 0, 0), plane_n = (0, 0, 1)\<rparr>)) m Transform_default)
     = \<lparr>aabb_min = (-1000000, -1000000, -1000000), aabb_max = (1000000, 1000000, 1000000)\<rparr>"
  "geom (SceneObject (Some (Plane_geometry \<lparr>plane_p0 = (0, 0, 0), plane_n = (0, 0, 1)\<rparr>)) m Transform_default)
     = Some (Plane_geometry \<lparr>plane_p0 = (0, 0, 0), plane_n = (0, 0, 1)\<rparr>)"
  "mat (SceneObject (Some (Plane_geometry \<lparr>plane_p0 = (0, 0, 0), plane_n = (0, 0, 1)\<rparr>)) m Transform_default) = m"
  "m_world (SceneObject (Some (Plane_geometry \<lparr>plane_p0 = (0, 0, 0), plane_n = (0, 0, 1)\<rparr>)) m Transform_default)
     = identity4"
  "inv_world (SceneObject (Some (Plane_geometry \<lparr>plane_p0 = (0, 0, 0), plane_n = (0, 0, 1)\<rparr>)) m Transform_default)
     = identity4"
  "normal_it3 (SceneObject (Some (Plane_geometry \<lparr>plane_p0 = (0, 0, 0), plane_n = (0, 0, 1)\<rparr>)) m Transform_default)
     = (\<lambda>r c. identity4 c r)"
  by (simp_all add: SceneObject_def update_aabb_def cache_from_transform_def Transform_default_def
      Plane_geometry_def Plane_aabb_def Plane_big_extent_def AABB_empty_def AABB_default_def AABB_expand_eval
      identity4_def Let_def)

lemma near_plane_object_hit:
  "SceneObject_intersect
     (SceneObject (Some (Plane_geometry \<lparr>plane_p0 = (0, 0, 0), plane_n = (0, 0, 1)\<rparr>)) m Transform_default)
     (Ray (0, 0, 3) (0, 0, -1) 0 100)
   = Some \<lparr>hit_t = 3, hit_normal = (0, 0, 1), hit_uv = (0, 0)\<rparr>"
proof -
  let ?ob = "SceneObject (Some (Plane_geometry \<lparr>plane_p0 = (0, 0, 0), plane_n = (0, 0, 1)\<rparr>)) m Transform_default"
  let ?r = "Ray (0, 0, 3) (0, 0, -1) 0 100"
  let ?h = "\<lparr>hit_t = 3, hit_normal = (0, 0, 1), hit_uv = (0, 0)\<rparr>"
  have box: "aabb_hits ?ob ?r"
    by (simp add: aabb_hits_def near_plane_object_fields AABB_intersect_def AABB_empty_def
        Ray_def Let_def)
  have ro: "to_object_ray ?ob ?r = ?r"
    by (simp add: to_object_ray_def near_plane_object_fields identity4_def Ray_def Let_def)
  have loc: "geo_intersect (Plane_geometry \<lparr>plane_p0 = (0, 0, 0), plane_n = (0, 0, 1)\<rparr>) ?r = Some ?h"
    by (simp add: Plane_geometry_def Plane_intersect_def Hit_default_def Ray_def Let_def)
  have wh: "map_hit_to_world ?ob ?r ?r ?h = ?h"
    by (simp add: map_hit_to_world_def compute_world_t_def near_plane_object_fields identity4_def
        Hit_default_def ray_at_def Ray_def Let_def)
  have rng: "tmin ?r = 0" "tmax ?r = 100" by (simp_all add: Ray_def)
  show ?thesis
    unfolding SceneObject_intersect_def near_plane_object_fields(2) option.case Let_def ro loc wh rng
    using box by simp
qed

lemma far_plane_object_fields:
  "aabb_world (SceneObject (Some (Plane_geometry \<lparr>plane_p0 = (0, 0, -1), plane_n = (0, 0, 1)\<rparr>)) m Transform_default)
     = \<lparr>aabb_min = (-1000000, -1000000, -1000001), aabb_max = (1000000, 1000000, 999999)\<rparr>"
  "geom (SceneObject (Some (Plane_geometry \<lparr>plane_p0 = (0, 0, -1), plane_n = (0, 0, 1)\<rparr>)) m Transform_default)
     = Some (Plane_geometry \<lparr>plane_p0 = (0, 0, -1), plane_n = (0, 0, 1)\<rparr>)"
  "mat (SceneObject (Some (Plane_geometry \<lparr>plane_p0 = (0, 0, -1), plane_n = (0, 0, 1)\<rparr>)) m Transform_default) = m"
  "m_world (SceneObject (Some (Plane_geometry \<lparr>plane_p0 = (0, 0, -1), plane_n = (0, 0, 1)\<rparr>)) m Transform_default)
     = identity4"
  "inv_world (SceneObject (Some (Plane_geometry \<lparr>plane_p0 = (0, 0, -1), plane_n = (0, 0, 1)\<rparr>)) m Transform_default)
     = identity4"
  "normal_it3 (SceneObject (Some (Plane_geometry \<lparr>plane_p0 = (0, 0, -1), plane_n = (0, 0, 1)\<rparr>)) m Transform_default)
     = (\<lambda>r c. identity4 c r)"
  by (simp_all add: SceneObject_def update_aabb_def cache_from_transform_def Transform_default_def
      Plane_geometry_def Plane_aabb_def Plane_big_extent_def AABB_empty_def AABB_default_def AABB_expand_eval
      identity4_def Let_def)

lemma far_plane_object_hit:
  "SceneObject_intersect
     (SceneObject (Some (Plane_geometry \<lparr>plane_p0 = (0, 0, -1), plane_n = (0, 0, 1)\<rparr>)) m Transform_default)
     (Ray (0, 0, 3) (0, 0, -1) 0 100)
   = Some \<lparr>hit_t = 4, hit_normal = (0, 0, 1), hit_uv = (0, 0)\<rparr>"
proof -
  let ?ob = "SceneObject (Some (Plane_geometry \<lparr>plane_p0 = (0, 0, -1), plane_n = (0, 0, 1)\<rparr>)) m Transform_default"
  let ?r = "Ray (0, 0, 3) (0, 0, -1) 0 100"
  let ?h = "\<lparr>hit_t = 4, hit_normal = (0, 0, 1), hit_uv = (0, 0)\<rparr>"
  have box: "aabb_hits ?ob ?r"
    by (simp add: aabb_hits_def far_plane_object_fields AABB_intersect_def AABB_empty_def
        Ray_def Let_def)
  have ro: "to_object_ray ?ob ?r = ?r"
    by (simp add: to_object_ray_def far_plane_object_fields identity4_def Ray_def Let_def)
  have loc: "geo_intersect (Plane_geometry \<lparr>plane_p0 = (0, 0, -1), plane_n = (0, 0, 1)\<rparr>) ?r = Some ?h"
    by (simp add: Plane_geometry_def Plane_intersect_def Hit_default_def Ray_def Let_def)
  have wh: "map_hit_to_world ?ob ?r ?r ?h = ?h"
    by (simp add: map_hit_to_world_def compute_world_t_def far_plane_object_fields identity4_def
        Hit_default_def ray_at_def Ray_def Let_def)
  have rng: "tmin ?r = 0" "tmax ?r = 100" by (simp_all add: Ray_def)
  show ?thesis
    unfolding SceneObject_intersect_def far_plane_object_fields(2) option.case Let_def ro loc wh rng
    using box by simp
qed

lemma lambertian_distinct: "lambertian (0, 1, 0) \<noteq> lambertian (1, 0, 0)"
proof
  assume "lambertian (0, 1, 0) = lambertian (1, 0, 0)"
  then have "albedo_prop (lambertian (0, 1, 0)) (0, 0) = albedo_prop (lambertian (1, 0, 0)) (0, 0)"
    by simp
  then show False by (simp add: lambertian_def Material_default_def)
qed

text \<open>
  C1 as stated fails: the scan accepts a hit when \<open>h->t <= best_t\<close>, so an object that ties
  with the best hit so far replaces it. Two planes \<open>z = 0\<close>, the first red and the second
  green, are both hit at \<open>t = 3\<close> by the ray from \<open>(0,0,3)\<close> towards \<open>-z\<close>; the material kept
  is the second one.
\<close>

theorem nearest_scan_first_wins_counterexample:
  "SceneObject_intersect
     (SceneObject (Some (Plane_geometry \<lparr>plane_p0 = (0, 0, 0), plane_n = (0, 0, 1)\<rparr>))
        (lambertian (1, 0, 0)) Transform_default)
     (Ray (0, 0, 3) (0, 0, -1) 0 100)
     = Some \<lparr>hit_t = 3, hit_normal = (0, 0, 1), hit_uv = (0, 0)\<rparr>
   \<and> SceneObject_intersect
     (SceneObject (Some (Plane_geometry \<lparr>plane_p0 = (0, 0, 0), plane_n = (0, 0, 1)\<rparr>))
        (lambertian (0, 1, 0)) Transform_default)
     (Ray (0, 0, 3) (0, 0, -1) 0 100)
     = Some \<lparr>hit_t = 3, hit_normal = (0, 0, 1), hit_uv = (0, 0)\<rparr>
   \<and> best_m (nearest_scan (Ray (0, 0, 3) (0, 0, -1) 0 100)
        [SceneObject (Some (Plane_geometry \<lparr>plane_p0 = (0, 0, 0), plane_n = (0, 0, 1)\<rparr>))
           (lambertian (1, 0, 0)) Transform_default,
         SceneObject (Some (Plane_geometry \<lparr>plane_p0 = (0, 0, 0), plane_n = (0, 0, 1)\<rparr>))
           (lambertian (0, 1, 0)) Transform_default])
     = Some (lambertian (0, 1, 0))
   \<and> lambertian (0, 1, 0) \<noteq> lambertian (1, 0, 0)"
proof -
  let ?r = "Ray (0, 0, 3) (0, 0, -1) 0 100"
  have box: "AABB_intersect \<lparr>aabb_min = (-1000000, -1000000, -1000000), aabb_max = (1000000, 1000000, 1000000)\<rparr> ?r \<noteq> None"
    by (simp add: AABB_intersect_def AABB_empty_def Ray_def Let_def)
  have rng: "tmin ?r = 0" "tmax ?r = 100" by (simp_all add: Ray_def)
  show ?thesis
    using box lambertian_distinct
    by (simp add: nearest_scan_def scan_object_def scan_init_def near_plane_object_hit
        near_plane_object_fields rng)
qed

text \<open>
  C1, amended. When an object reports a valid hit whose \<open>t\<close> is the smallest of all reported
  hits and no later object reports a hit with the same \<open>t\<close>, the scan ends with that object's
  hit: among objects that tie for the nearest hit, the last one in insertion order wins.
\<close>

theorem nearest_scan_last_wins:
  assumes i: "i < length objs"
    and h: "SceneObject_intersect (objs ! i) ray = Some h"
    and nearest: "\<forall>j<length objs. \<forall>h'. SceneObject_intersect (objs ! j) ray = Some h'
                    \<longrightarrow> hit_t h \<le> hit_t h'"
    and later: "\<forall>j<length objs. \<forall>h'. i < j \<and> SceneObject_intersect (objs ! j) ray = Some h'
                    \<longrightarrow> hit_t h < hit_t h'"
  shows "nearest_scan ray objs =
           \<lparr>best_t = hit_t h, best_n = normalized (hit_normal h), best_p = ray_at ray (hit_t h),
            best_uv = hit_uv h, best_m = Some (mat (objs ! i)), any_hit = True\<rparr>"
proof -
  let ?pre = "take i objs" and ?post = "drop (Suc i) objs"
  let ?win = "\<lparr>best_t = hit_t h, best_n = normalized (hit_normal h), best_p = ray_at ray (hit_t h),
            best_uv = hit_uv h, best_m = Some (mat (objs ! i)), any_hit = True\<rparr>"
  have split: "objs = ?pre @ objs ! i # ?post" using i by (rule id_take_nth_drop)
  define s1 where "s1 = foldl (scan_object ray) (scan_init ray) ?pre"
  have pre: "hit_t h \<le> best_t s1"
    unfolding s1_def
  proof (rule scan_best_t_lower)
    fix ob h' assume "ob \<in> set ?pre" and oh: "SceneObject_intersect ob ray = Some h'"
    then obtain j where j: "j < i" "ob = objs ! j"
      using i by (auto simp add: in_set_conv_nth)
    then have "j < length objs" using i by simp
    then show "hit_t h \<le> hit_t h'" using nearest[rule_format, of j h'] oh j by simp
  next
    show "hit_t h \<le> best_t (scan_init ray)"
      using SceneObject_intersect_range(2)[OF h] by (simp add: scan_init_def)
  qed
  have mid: "scan_object ray s1 (objs ! i) = ?win"
    using h pre by (rule scan_object_hit)
  have post: "foldl (scan_object ray) ?win ?post = ?win"
  proof (rule scan_skip_all)
    fix ob h' assume "ob \<in> set ?post" and oh: "SceneObject_intersect ob ray = Some h'"
    then obtain k where k: "Suc i + k < length objs" "ob = objs ! (Suc i + k)"
      by (fastforce simp add: in_set_conv_nth less_diff_conv add.commute)
    then show "best_t ?win < hit_t h'" using later[rule_format, of "Suc i + k" h'] oh by simp
  qed
  have "nearest_scan ray objs = foldl (scan_object ray) (scan_object ray s1 (objs ! i)) ?post"
    unfolding nearest_scan_def s1_def by (subst split) simp
  then show ?thesis unfolding mid post .
qed

theorem nearest_scan_last_wins_witness:
  "nearest_scan (Ray (0, 0, 3) (0, 0, -1) 0 100)
     [SceneObject (Some (Plane_geometry \<lparr>plane_p0 = (0, 0, 0), plane_n = (0, 0, 1)\<rparr>))
        (lambertian (1, 0, 0)) Transform_default,
      SceneObject (Some (Plane_geometry \<lparr>plane_p0 = (0, 0, 0), plane_n = (0, 0, 1)\<rparr>))
        (lambertian (0, 1, 0)) Transform_default,
      SceneObject (Some (Plane_geometry \<lparr>plane_p0 = (0, 0, -1), plane_n = (0, 0, 1)\<rparr>))
        (lambertian (0, 0, 1)) Transform_default]
   = \<lparr>best_t = 3, best_n = (0, 0, 1), best_p = (0, 0, 0), best_uv = (0, 0),
      best_m = Some (lambertian (0, 1, 0)), any_hit = True\<rparr>"
proof -
  let ?r = "Ray (0, 0, 3) (0, 0, -1) 0 100"
  let ?A = "SceneObject (Some (Plane_geometry \<lparr>plane_p0 = (0, 0, 0), plane_n = (0, 0, 1)\<rparr>))
        (lambertian (1, 0, 0)) Transform_default"
  let ?B = "SceneObject (Some (Plane_geometry \<lparr>plane_p0 = (0, 0, 0), plane_n = (0, 0, 1)\<rparr>))
        (lambertian (0, 1, 0)) Transform_default"
  let ?C = "SceneObject (Some (Plane_geometry \<lparr>plane_p0 = (0, 0, -1), plane_n = (0, 0, 1)\<rparr>))
        (lambertian (0, 0, 1)) Transform_default"
  let ?h = "\<lparr>hit_t = 3, hit_normal = (0, 0, 1), hit_uv = (0, 0)\<rparr>"
  have cases3: "j = 0 \<or> j = 1 \<or> j = 2" if "j < length [?A, ?B, ?C]" for j
    using that by auto
  have i: "1 < length [?A, ?B, ?C]" by simp
  have h: "SceneObject_intersect ([?A, ?B, ?C] ! 1) ?r = Some ?h"
    by (simp add: near_plane_object_hit)
  have nearest: "\<forall>j<length [?A, ?B, ?C]. \<forall>h'. SceneObject_intersect ([?A, ?B, ?C] ! j) ?r = Some h'
                    \<longrightarrow> hit_t ?h \<le> hit_t h'"
  proof (intro allI impI)
    fix j h' assume "j < length [?A, ?B, ?C]"
      and "SceneObject_intersect ([?A, ?B, ?C] ! j) ?r = Some h'"
    then show "hit_t ?h \<le> hit_t h'"
      using cases3[of j] by (auto simp add: near_plane_object_hit far_plane_object_hit)
  qed
  have later: "\<forall>j<length [?A, ?B, ?C]. \<forall>h'. 1 < j \<and> SceneObject_intersect ([?A, ?B, ?C] ! j) ?r = Some h'
                    \<longrightarrow> hit_t ?h < hit_t h'"
  proof (intro allI impI)
    fix j h' assume "j < length [?A, ?B, ?C]"
      and "1 < j \<and> SceneObject_intersect ([?A, ?B, ?C] ! j) ?r = Some h'"
    then show "hit_t ?h < hit_t h'"
      using cases3[of j] by (auto simp add: far_plane_object_hit)
  qed
  have n: "normalized (0, 0, 1) = (0, 0, 1)" by (simp add: normalized_def)
  have p: "ray_at ?r 3 = (0, 0, 0)" by (simp add: ray_at_def Ray_def)
  show ?thesis
    using nearest_scan_last_wins[OF i h nearest later]
    by (simp add: n p near_plane_object_fields)
qed

lemma scan_any_hit_material:
  assumes "any_hit st \<longrightarrow> best_m st \<noteq> None"
  shows "any_hit (foldl (scan_object ray) st xs) \<longrightarrow> best_m (foldl (scan_object ray) st xs) \<noteq> None"
  using assms
proof (induction xs arbitrary: st)
  case Nil
  then show ?case by simp
next
  case (Cons x xs)
  have "any_hit (scan_object ray st x) \<longrightarrow> best_m (scan_object ray st x) \<noteq> None"
    using Cons.prems by (auto simp add: scan_object_def split: option.splits)
  then show ?case using Cons.IH[of "scan_object ray st x"] by simp
qed

lemma nearest_scan_material:
  "any_hit (nearest_scan ray objs) \<Longrightarrow> \<exists>m. best_m (nearest_scan ray objs) = Some m"
  using scan_any_hit_material[of "scan_init ray" ray objs]
  by (auto simp add: nearest_scan_def scan_init_def)

text \<open>
  C2. In an iteration of the loop of \<open>path_trace_\<close> that found a hit, the emitted light is
  added to \<open>L\<close> first. At depth 3 or more, \<open>q = 1 - clamp(max(beta_r, beta_g, beta_b), 0, 1)\<close>
  and one number \<open>u\<close> is drawn: if \<open>u < q\<close> the loop ends and \<open>path_trace_\<close> returns the
  radiance accumulated so far; otherwise the iteration goes on with \<open>beta / (1 - q)\<close>, and
  the divisor is positive for a draw below 1. Below depth 3 nothing is drawn and \<open>beta\<close> is
  unchanged.
\<close>

theorem russian_roulette_step:
  assumes "depth < max_depth" "any_hit (nearest_scan ray (objects sc))"
  shows "\<exists>m. best_m (nearest_scan ray (objects sc)) = Some m \<and>
     (let st = nearest_scan ray (objects sc);
          uv = best_uv st;
          L1 = vadd L (hadamard beta (vscale (Material_radiance m uv) (Material_emission m uv)));
          continue = (\<lambda>b g'.
            case sample_bsdf ray st (Material_albedo m uv) (Material_roughness m uv)
                   (Material_transparency m uv) (Material_refractive_index m uv) b g' of
              (ray', beta', g'') \<Rightarrow> path_trace_loop sc max_depth (Suc depth) ray' L1 beta' g'');
          q = 1 - clamp (max (max (idx3 beta 0) (idx3 beta 1)) (idx3 beta 2)) 0 1;
          u = fst (uni g);
          g1 = snd (uni g)
      in (depth < 3 \<longrightarrow> path_trace_loop sc max_depth depth ray L beta g = continue beta g)
       \<and> (3 \<le> depth \<and> u < q \<longrightarrow> path_trace_loop sc max_depth depth ray L beta g = (L1, g1))
       \<and> (3 \<le> depth \<and> \<not> u < q \<longrightarrow>
            path_trace_loop sc max_depth depth ray L beta g = continue (vdiv beta (1 - q)) g1)
       \<and> (u < 1 \<and> \<not> u < q \<longrightarrow> 0 < 1 - q))"
proof -
  obtain m where m: "best_m (nearest_scan ray (objects sc)) = Some m"
    using nearest_scan_material[OF assms(2)] by blast
  have loop: "path_trace_loop sc max_depth depth ray L beta g =
        (case path_trace_body sc depth ray L beta g of
           Break L' g' \<Rightarrow> (L', g')
         | Continue ray' L' beta' g' \<Rightarrow> path_trace_loop sc max_depth (Suc depth) ray' L' beta' g')"
    using assms(1) by (subst path_trace_loop.simps) simp
  show ?thesis
  proof (intro exI[of _ m] conjI)
    show "best_m (nearest_scan ray (objects sc)) = Some m" by (rule m)
  next
    show "let st = nearest_scan ray (objects sc);
          uv = best_uv st;
          L1 = vadd L (hadamard beta (vscale (Material_radiance m uv) (Material_emission m uv)));
          continue = (\<lambda>b g'.
            case sample_bsdf ray st (Material_albedo m uv) (Material_roughness m uv)
                   (Material_transparency m uv) (Material_refractive_index m uv) b g' of
              (ray', beta', g'') \<Rightarrow> path_trace_loop sc max_depth (Suc depth) ray' L1 beta' g'');
          q = 1 - clamp (max (max (idx3 beta 0) (idx3 beta 1)) (idx3 beta 2)) 0 1;
          u = fst (uni g);
          g1 = snd (uni g)
      in (depth < 3 \<longrightarrow> path_trace_loop sc max_depth depth ray L beta g = continue beta g)
       \<and> (3 \<le> depth \<and> u < q \<longrightarrow> path_trace_loop sc max_depth depth ray L beta g = (L1, g1))
       \<and> (3 \<le> depth \<and> \<not> u < q \<longrightarrow>
            path_trace_loop sc max_depth depth ray L beta g = continue (vdiv beta (1 - q)) g1)
       \<and> (u < 1 \<and> \<not> u < q \<longrightarrow> 0 < 1 - q)"
      unfolding loop Let_def
      using assms(2) m
      by (auto simp add: path_trace_body_def russian_roulette_def Let_def split: prod.splits)
  qed
qed

theorem russian_roulette_step_witness:
  "(3::nat) < 4
   \<and> any_hit (nearest_scan (Ray (0, 0, 3) (0, 0, -1) 0 100)
        (objects \<lparr>objects = [SceneObject (Some (Plane_geometry \<lparr>plane_p0 = (0, 0, 0), plane_n = (0, 0, 1)\<rparr>))
                               (emissive (1, 0, 0) 2) Transform_default],
                  background = (0, 0, 0),
                  cam = \<lparr>c2w = Transform_default, fov_y = 1, aspect = 1, z_near = 1/10, z_far = 100\<rparr>\<rparr>))
   \<and> path_trace_loop
        \<lparr>objects = [SceneObject (Some (Plane_geometry \<lparr>plane_p0 = (0, 0, 0), plane_n = (0, 0, 1)\<rparr>))
                      (emissive (1, 0, 0) 2) Transform_default],
         background = (0, 0, 0),
         cam = \<lparr>c2w = Transform_default, fov_y = 1, aspect = 1, z_near = 1/10, z_far = 100\<rparr>\<rparr>
        4 3 (Ray (0, 0, 3) (0, 0, -1) 0 100) (0, 0, 0) (1/2, 1/2, 1/2) (\<lambda>k. 1/4)
      = ((1, 0, 0), (\<lambda>k. 1/4))"
proof -
  let ?r = "Ray (0, 0, 3) (0, 0, -1) 0 100"
  let ?A = "SceneObject (Some (Plane_geometry \<lparr>plane_p0 = (0, 0, 0), plane_n = (0, 0, 1)\<rparr>))
              (emissive (1, 0, 0) 2) Transform_default"
  let ?sc = "\<lparr>objects = [?A], background = (0, 0, 0),
              cam = \<lparr>c2w = Transform_default, fov_y = 1, aspect = 1, z_near = 1/10, z_far = 100\<rparr>\<rparr>"
  have box: "AABB_intersect \<lparr>aabb_min = (-1000000, -1000000, -1000000), aabb_max = (1000000, 1000000, 1000000)\<rparr> ?r \<noteq> None"
    by (simp add: AABB_intersect_def AABB_empty_def Ray_def Let_def)
  have rng: "tmin ?r = 0" "tmax ?r = 100" by (simp_all add: Ray_def)
  have st: "nearest_scan ?r (objects ?sc) =
              \<lparr>best_t = 3, best_n = (0, 0, 1), best_p = (0, 0, 0), best_uv = (0, 0),
               best_m = Some (emissive (1, 0, 0) 2), any_hit = True\<rparr>"
    using box
    by (simp add: nearest_scan_def scan_object_def scan_init_def near_plane_object_hit
        near_plane_object_fields rng normalized_def ray_at_def) (simp add: Ray_def)
  have d: "(3::nat) < 4" by simp
  have a: "any_hit (nearest_scan ?r (objects ?sc))" unfolding st by simp
  have em: "Material_radiance (emissive (1, 0, 0) 2) (0, 0) = (1, 0, 0)"
    "Material_emission (emissive (1, 0, 0) 2) (0, 0) = 2"
    by (simp_all add: Material_radiance_def Material_emission_def emissive_def Material_default_def
        clamp_nonneg_def)
  show ?thesis
    using d a russian_roulette_step[OF d a, of "(0, 0, 0)" "(1/2, 1/2, 1/2)" "\<lambda>k. 1/4"]
    unfolding st
    by (simp add: Let_def em clamp_def uni_def)
qed

end
